theory Spec2Isabelle
  imports Complex_Main "HOL-Library.Word"
begin

section \<open>Values on the wire: JSON, BSON, object identifiers\<close>

text \<open>
  The service (package \<open>api\<close>, with a standalone copy in package \<open>main\<close>) decodes a JSON
  body, issues one call on a MongoDB collection and encodes a JSON answer. The handlers are
  embedded line by line; the libraries they call (\<open>encoding/json\<close>, \<open>net/http\<close>,
  \<open>bson/primitive\<close>, the \<open>mongo\<close> driver) are modelled below as far as the handlers use
  them.

  A \<open>float64\<close> is carried, never computed with: it is modelled by the rational it denotes,
  and a number literal is rounded to the nearest double when it is decoded. A Go slice is
  \<open>None\<close> when it is \<open>nil\<close>, because \<open>encoding/json\<close> writes a \<open>nil\<close> slice as \<open>null\<close> and
  any other as an array. Otherwise it is \<open>Some (xs, spare)\<close>: its elements \<open>xs\<close>, and what
  its backing array holds behind them of elements it had before it was cut shorter. Only
  decoding into a slice that is cut and filled again can bring the latter back; capacity
  that was never used reads as zero and is left out.
\<close>

type_synonym float64 = rat

type_synonym 'a slice = "('a list \<times> 'a list) option"

datatype json =
    JNull
  | JBool bool
  | JNumber rat
  | JString string
  | JArray "json list"
  | JObject "(string \<times> json) list"

datatype bson =
    BNull
  | BString string
  | BDouble float64
  | BObjectID "8 word list"
  | BArray "bson list"
  | BDocument "(string \<times> bson) list"

text \<open>\<open>bson.M\<close> and stored documents: keys with their values.\<close>

type_synonym bson_M = "(string \<times> bson) list"

subsection \<open>\<open>primitive.ObjectID\<close>\<close>

text \<open>An \<open>ObjectID\<close> is twelve bytes; \<open>NilObjectID\<close> is the zero value of the type.\<close>

type_synonym ObjectID = "8 word list"

definition NilObjectID :: ObjectID where
  "NilObjectID = replicate 12 0"

text \<open>\<open>ObjectID.IsZero\<close>, which \<open>omitempty\<close> consults.\<close>

definition IsZero :: "ObjectID \<Rightarrow> bool" where
  "IsZero oid \<longleftrightarrow> oid = NilObjectID"

datatype error =
    SyntaxError                 \<comment> \<open>the body does not start with a complete JSON value\<close>
  | UnmarshalTypeError string   \<comment> \<open>a JSON value of the wrong kind for the named field\<close>
  | NotExtendedJSONObjectID     \<comment> \<open>\<open>ObjectID.UnmarshalJSON\<close>: neither a string nor \<open>{"$oid": ...}\<close>\<close>
  | ErrInvalidHex               \<comment> \<open>\<open>ObjectIDFromHex\<close>: the string is not 24 characters long\<close>
  | ObjectIDLengthError nat     \<comment> \<open>\<open>ObjectID.UnmarshalJSON\<close>: a string of another length than 24\<close>
  | InvalidByteError char       \<comment> \<open>\<open>encoding/hex\<close>: a character that is no hexadecimal digit\<close>
  | ErrLength                   \<comment> \<open>\<open>encoding/hex\<close>: an odd number of digits\<close>
  | DriverError string          \<comment> \<open>time-out, connectivity or server failure of a store call\<close>
  | DuplicateKey ObjectID       \<comment> \<open>write error E11000 on \<open>_id\<close>\<close>
  | BadUpdate                   \<comment> \<open>the server rejects the update document\<close>
  | BsonDecodeError string      \<comment> \<open>a stored value of the wrong kind for the named field\<close>

text \<open>
  \<open>encoding/hex\<close>, the value of one digit:
  \<^verbatim>\<open>
  switch {
  case '0' <= c && c <= '9': return c - '0', true
  case 'a' <= c && c <= 'f': return c - 'a' + 10, true
  case 'A' <= c && c <= 'F': return c - 'A' + 10, true
  }
  return 0, false
  \<close>
\<close>

definition fromHexChar :: "char \<Rightarrow> nat option" where
  "fromHexChar ch =
     (let n = (of_char ch :: nat) in
      if of_char CHR ''0'' \<le> n \<and> n \<le> of_char CHR ''9'' then Some (n - of_char CHR ''0'')
      else if of_char CHR ''a'' \<le> n \<and> n \<le> of_char CHR ''f'' then Some (n - of_char CHR ''a'' + 10)
      else if of_char CHR ''A'' \<le> n \<and> n \<le> of_char CHR ''F'' then Some (n - of_char CHR ''A'' + 10)
      else None)"

text \<open>
  \<open>hex.Decode\<close>: two digits give one byte; a digit left over at the end is reported after
  every pair before it has been checked.
\<close>

fun hex_Decode :: "string \<Rightarrow> error + 8 word list" where
  "hex_Decode (a # b # rest) =
     (case fromHexChar a of
        None \<Rightarrow> Inl (InvalidByteError a)
      | Some p \<Rightarrow>
          (case fromHexChar b of
             None \<Rightarrow> Inl (InvalidByteError b)
           | Some q \<Rightarrow>
               (case hex_Decode rest of
                  Inl e \<Rightarrow> Inl e
                | Inr bs \<Rightarrow> Inr (of_nat (16 * p + q) # bs))))"
| "hex_Decode [a] =
     (case fromHexChar a of None \<Rightarrow> Inl (InvalidByteError a) | Some p \<Rightarrow> Inl ErrLength)"
| "hex_Decode [] = Inr []"

text \<open>
  \<open>primitive.ObjectIDFromHex\<close>: the length check comes first, then the digits.
\<close>

definition ObjectIDFromHex :: "string \<Rightarrow> error + ObjectID" where
  "ObjectIDFromHex s =
     (if length s \<noteq> 24 then Inl ErrInvalidHex
      else case hex_Decode s of Inl e \<Rightarrow> Inl e | Inr oid \<Rightarrow> Inr oid)"

text \<open>\<open>ObjectID.Hex\<close>: two lower-case digits for each byte.\<close>

definition hexdigit :: "nat \<Rightarrow> char" where
  "hexdigit n = ''0123456789abcdef'' ! (n mod 16)"

definition Hex :: "ObjectID \<Rightarrow> string" where
  "Hex oid = concat (map (\<lambda>b. [hexdigit (unat b div 16), hexdigit (unat b mod 16)]) oid)"

section \<open>The data model of the service\<close>

text \<open>
  \<^verbatim>\<open>
  type Geometry struct {
      Type        string    `json:"type" bson:"type"`
      Coordinates []float64 `json:"coordinates" bson:"coordinates"`
  }
  type Properties struct {
      Name        string `json:"name" bson:"name"`
      Description string `json:"description" bson:"description"`
  }
  type LocationFeature struct {
      ID         primitive.ObjectID `json:"id" bson:"_id,omitempty"`
      Type       string             `json:"type" bson:"type"`
      Properties Properties         `json:"properties" bson:"properties"`
      Geometry   Geometry           `json:"geometry" bson:"geometry"`
  }
  type FeatureCollection struct {
      Type     string            `json:"type"`
      Features []LocationFeature `json:"features"`
  }
  \<close>
\<close>

record Geometry =
  GType :: string
  Coordinates :: "float64 slice"

record Properties =
  Name :: string
  Description :: string

record LocationFeature =
  ID :: ObjectID
  Type :: string
  Properties :: Properties
  Geometry :: Geometry

record FeatureCollection =
  FCType :: string
  Features :: "LocationFeature slice"

text \<open>The zero value of \<open>LocationFeature\<close>, which \<open>var feature LocationFeature\<close> declares.\<close>

definition zeroLocationFeature :: LocationFeature where
  "zeroLocationFeature =
     \<lparr>ID = NilObjectID, Type = [],
      Properties = \<lparr>Name = [], Description = []\<rparr>,
      Geometry = \<lparr>GType = [], Coordinates = None\<rparr>\<rparr>"

section \<open>\<open>encoding/json\<close>: decoding the request body\<close>

text \<open>
  \<open>json.NewDecoder(r.Body).Decode(&feature)\<close> reads the first JSON value of the stream
  and checks its syntax before it stores anything. The model takes the body as that
  value, or as \<open>NotJSON\<close> when the stream does not start with a complete JSON value.

  Decoding into a struct follows \<open>encoding/json\<close>: members are taken in order, a key
  selects the field whose name it equals under case folding, unknown keys are skipped,
  \<open>null\<close> leaves a non-pointer field as it is, a value of the wrong kind is remembered as
  the first \<open>UnmarshalTypeError\<close> while decoding goes on, and the remembered error is
  returned at the end. An error of \<open>ObjectID.UnmarshalJSON\<close> stops decoding at once.

  The model reads values, not bytes. Where the code looks at the spelling of a token
  (\<open>ObjectID.UnmarshalJSON\<close> copies a raw token of exactly twelve bytes), a string is
  taken as written without escapes; twelve-byte tokens of another kind (a number, an
  object, a string with escapes) are outside the model.
\<close>

datatype body = NotJSON | JSONValue json

definition toLower :: "char \<Rightarrow> char" where
  "toLower ch =
     (case map_of (zip ''ABCDEFGHIJKLMNOPQRSTUVWXYZ'' ''abcdefghijklmnopqrstuvwxyz'') ch of
        None \<Rightarrow> ch
      | Some l \<Rightarrow> l)"

text \<open>
  Case folding of a key. The field names are ASCII, and besides the letters of the other
  case only two characters fold to an ASCII letter: U+017F (bytes \<open>C5 BF\<close>) to \<open>s\<close> and
  U+212A (bytes \<open>E2 84 AA\<close>) to \<open>k\<close>.
\<close>

fun foldName :: "string \<Rightarrow> string" where
  "foldName (a # b # c # rest) =
     (if a = CHR 0xE2 \<and> b = CHR 0x84 \<and> c = CHR 0xAA then CHR ''k'' # foldName rest
      else if a = CHR 0xC5 \<and> b = CHR 0xBF then CHR ''s'' # foldName (c # rest)
      else toLower a # foldName (b # c # rest))"
| "foldName [a, b] =
     (if a = CHR 0xC5 \<and> b = CHR 0xBF then [CHR ''s''] else toLower a # foldName [b])"
| "foldName [a] = [toLower a]"
| "foldName [] = []"

definition saveError :: "error option \<Rightarrow> error \<Rightarrow> error option" where
  "saveError saved e = (case saved of None \<Rightarrow> Some e | Some e0 \<Rightarrow> Some e0)"

text \<open>
  \<open>strconv.ParseFloat(s, 64)\<close> gives the double nearest to the literal, ties to the even
  mantissa, and fails with a range error on a literal that rounds to infinity. A double
  is a multiple of \<open>2 ^ (e - 52)\<close>, where \<open>2 ^ e\<close> is the power of two at or below its
  magnitude and \<open>e\<close> is at least \<open>-1022\<close>.
\<close>

definition pow2 :: "int \<Rightarrow> rat" where
  "pow2 e = (if 0 \<le> e then of_int (2 ^ nat e) else 1 / of_int (2 ^ nat (- e)))"

text \<open>The number of binary digits of a positive integer.\<close>

function bit_length :: "int \<Rightarrow> int" where
  "bit_length n = (if n \<le> 0 then 0 else 1 + bit_length (n div 2))"
  by pat_completeness auto
termination
  by (relation "measure nat") auto

text \<open>
  For a positive \<open>a\<close>, the \<open>e\<close> with \<open>2 ^ e \<le> a < 2 ^ (e + 1)\<close>: the digits of numerator
  and denominator give it up to one.
\<close>

definition floor_log2 :: "rat \<Rightarrow> int" where
  "floor_log2 a =
     (let (n, d) = quotient_of a;
          k = bit_length n - bit_length d
      in if pow2 k \<le> a then k else k - 1)"

definition round_even :: "rat \<Rightarrow> int" where
  "round_even x =
     (let f = \<lfloor>x\<rfloor>; r = x - of_int f
      in if r < 1 / 2 then f else if 1 / 2 < r then f + 1 else if even f then f else f + 1)"

definition float64_round :: "rat \<Rightarrow> float64" where
  "float64_round q =
     (if q = 0 then 0
      else (let e = max (floor_log2 \<bar>q\<bar>) (- 1022); u = pow2 (e - 52)
            in of_int (round_even (q / u)) * u))"

definition float64_of :: "rat \<Rightarrow> float64 option" where
  "float64_of q =
     (if \<bar>q\<bar> < of_int (2 ^ 1024 - 2 ^ 970) then Some (float64_round q) else None)"

definition decode_string :: "string \<Rightarrow> json \<Rightarrow> string \<times> error option \<Rightarrow> string \<times> error option" where
  "decode_string fld v st =
     (case v of
        JNull \<Rightarrow> st
      | JString s \<Rightarrow> (s, snd st)
      | _ \<Rightarrow> (fst st, saveError (snd st) (UnmarshalTypeError fld)))"

definition decode_float64 :: "string \<Rightarrow> json \<Rightarrow> float64 \<times> error option \<Rightarrow> float64 \<times> error option" where
  "decode_float64 fld v st =
     (case v of
        JNull \<Rightarrow> st
      | JNumber q \<Rightarrow>
          (case float64_of q of
             Some x \<Rightarrow> (x, snd st)
           | None \<Rightarrow> (fst st, saveError (snd st) (UnmarshalTypeError fld)))
      | _ \<Rightarrow> (fst st, saveError (snd st) (UnmarshalTypeError fld)))"

text \<open>
  The elements of an array are decoded into what the backing array of the slice holds at
  their index, the elements of the slice and those it had before, and into zero values
  beyond that: \<open>null\<close>, and an element of the wrong kind, leave there what was there.
\<close>

fun decode_elems :: "string \<Rightarrow> json list \<Rightarrow> float64 list \<Rightarrow> error option \<Rightarrow> float64 list \<times> error option" where
  "decode_elems fld [] cur saved = ([], saved)"
| "decode_elems fld (j # js) cur saved =
     (let old = (case cur of [] \<Rightarrow> 0 | x # _ \<Rightarrow> x);
          (x, saved1) = decode_float64 fld j (old, saved);
          (xs, saved2) = decode_elems fld js (tl cur) saved1
      in (x # xs, saved2))"

text \<open>
  \<open>null\<close> makes the slice \<open>nil\<close>, the empty array makes it a new empty slice, and
  another array fills the slice from its first element and cuts it to the length of the
  array.
\<close>

definition decode_float64s :: "string \<Rightarrow> json \<Rightarrow> float64 slice \<times> error option \<Rightarrow> float64 slice \<times> error option" where
  "decode_float64s fld v st =
     (case v of
        JNull \<Rightarrow> (None, snd st)
      | JArray js \<Rightarrow>
          if js = [] then (Some ([], []), snd st)
          else
            (let mem = (case fst st of None \<Rightarrow> [] | Some (cur, spare) \<Rightarrow> cur @ spare);
                 (xs, saved) = decode_elems fld js mem (snd st)
             in (Some (xs, drop (length xs) mem), saved))
      | _ \<Rightarrow> (fst st, saveError (snd st) (UnmarshalTypeError fld)))"

fun decode_Properties_members :: "(string \<times> json) list \<Rightarrow> Properties \<times> error option \<Rightarrow> Properties \<times> error option" where
  "decode_Properties_members [] st = st"
| "decode_Properties_members ((k, v) # ms) (p, saved) =
     decode_Properties_members ms
       (if foldName k = ''name'' then
          (let (s, saved') = decode_string ''properties.name'' v (Name p, saved)
           in (p\<lparr>Name := s\<rparr>, saved'))
        else if foldName k = ''description'' then
          (let (s, saved') = decode_string ''properties.description'' v (Description p, saved)
           in (p\<lparr>Description := s\<rparr>, saved'))
        else (p, saved))"

definition decode_Properties :: "json \<Rightarrow> Properties \<times> error option \<Rightarrow> Properties \<times> error option" where
  "decode_Properties v st =
     (case v of
        JNull \<Rightarrow> st
      | JObject ms \<Rightarrow> decode_Properties_members ms st
      | _ \<Rightarrow> (fst st, saveError (snd st) (UnmarshalTypeError ''properties'')))"

fun decode_Geometry_members :: "(string \<times> json) list \<Rightarrow> Geometry \<times> error option \<Rightarrow> Geometry \<times> error option" where
  "decode_Geometry_members [] st = st"
| "decode_Geometry_members ((k, v) # ms) (g, saved) =
     decode_Geometry_members ms
       (if foldName k = ''type'' then
          (let (s, saved') = decode_string ''geometry.type'' v (GType g, saved)
           in (g\<lparr>GType := s\<rparr>, saved'))
        else if foldName k = ''coordinates'' then
          (let (c, saved') = decode_float64s ''geometry.coordinates'' v (Coordinates g, saved)
           in (g\<lparr>Coordinates := c\<rparr>, saved'))
        else (g, saved))"

definition decode_Geometry :: "json \<Rightarrow> Geometry \<times> error option \<Rightarrow> Geometry \<times> error option" where
  "decode_Geometry v st =
     (case v of
        JNull \<Rightarrow> st
      | JObject ms \<Rightarrow> decode_Geometry_members ms st
      | _ \<Rightarrow> (fst st, saveError (snd st) (UnmarshalTypeError ''geometry'')))"

text \<open>
  \<open>ObjectID.UnmarshalJSON\<close>: \<open>null\<close> is ignored; a token of twelve bytes is copied as it
  stands, which for a string of ten characters are the characters between their quotes;
  otherwise the empty string gives \<open>NilObjectID\<close>, a string of 24 hexadecimal digits gives
  its bytes, and an object is read as extended JSON through its \<open>$oid\<close> member (the last
  one, as in a Go map).
\<close>

text \<open>A character that a JSON string holds without an escape.\<close>

definition unescaped :: "char \<Rightarrow> bool" where
  "unescaped ch \<longleftrightarrow> 32 \<le> (of_char ch :: nat) \<and> ch \<noteq> CHR 0x22 \<and> ch \<noteq> CHR 0x5C"

definition raw_bytes :: "string \<Rightarrow> 8 word list" where
  "raw_bytes tok = map (\<lambda>ch. of_nat (of_char ch)) tok"

definition ObjectID_of_string :: "string \<Rightarrow> error + ObjectID" where
  "ObjectID_of_string str =
     (if length str = 0 then Inr NilObjectID
      else if length str \<noteq> 24 then Inl (ObjectIDLengthError (length str))
      else hex_Decode str)"

definition ObjectID_UnmarshalJSON :: "json \<Rightarrow> ObjectID \<Rightarrow> error + ObjectID" where
  "ObjectID_UnmarshalJSON v cur =
     (case v of
        JNull \<Rightarrow> Inr cur
      | JString str \<Rightarrow>
          if length str = 10 \<and> list_all unescaped str
          then Inr (raw_bytes (CHR 0x22 # str @ [CHR 0x22]))
          else ObjectID_of_string str
      | JObject m \<Rightarrow>
          (case map_of (rev m) ''$oid'' of
             Some (JString str) \<Rightarrow> ObjectID_of_string str
           | _ \<Rightarrow> Inl NotExtendedJSONObjectID)
      | _ \<Rightarrow> Inl NotExtendedJSONObjectID)"

fun decode_LocationFeature_members ::
  "(string \<times> json) list \<Rightarrow> LocationFeature \<times> error option \<Rightarrow> error + (LocationFeature \<times> error option)" where
  "decode_LocationFeature_members [] st = Inr st"
| "decode_LocationFeature_members ((k, v) # ms) (f, saved) =
     (if foldName k = ''id'' then
        (case ObjectID_UnmarshalJSON v (ID f) of
           Inl e \<Rightarrow> Inl e
         | Inr oid \<Rightarrow> decode_LocationFeature_members ms (f\<lparr>ID := oid\<rparr>, saved))
      else if foldName k = ''type'' then
        (let (s, saved') = decode_string ''type'' v (Type f, saved)
         in decode_LocationFeature_members ms (f\<lparr>Type := s\<rparr>, saved'))
      else if foldName k = ''properties'' then
        (let (p, saved') = decode_Properties v (Properties f, saved)
         in decode_LocationFeature_members ms (f\<lparr>Properties := p\<rparr>, saved'))
      else if foldName k = ''geometry'' then
        (let (g, saved') = decode_Geometry v (Geometry f, saved)
         in decode_LocationFeature_members ms (f\<lparr>Geometry := g\<rparr>, saved'))
      else decode_LocationFeature_members ms (f, saved))"

text \<open>
  \<open>Decode\<close> into a \<open>LocationFeature\<close> that holds \<open>cur\<close>: the error, or the struct as it
  is afterwards.
\<close>

definition json_Decode :: "body \<Rightarrow> LocationFeature \<Rightarrow> error + LocationFeature" where
  "json_Decode b cur =
     (case b of
        NotJSON \<Rightarrow> Inl SyntaxError
      | JSONValue JNull \<Rightarrow> Inr cur
      | JSONValue (JObject ms) \<Rightarrow>
          (case decode_LocationFeature_members ms (cur, None) of
             Inl e \<Rightarrow> Inl e
           | Inr (f, Some e) \<Rightarrow> Inl e
           | Inr (f, None) \<Rightarrow> Inr f)
      | JSONValue _ \<Rightarrow> Inl (UnmarshalTypeError ''LocationFeature''))"

section \<open>\<open>encoding/json\<close>: encoding the answers\<close>

definition encode_float64s :: "float64 slice \<Rightarrow> json" where
  "encode_float64s c = (case c of None \<Rightarrow> JNull | Some (xs, spare) \<Rightarrow> JArray (map JNumber xs))"

definition encode_LocationFeature :: "LocationFeature \<Rightarrow> json" where
  "encode_LocationFeature f =
     JObject
       [(''id'', JString (Hex (ID f))),
        (''type'', JString (Type f)),
        (''properties'',
           JObject [(''name'', JString (Name (Properties f))),
                    (''description'', JString (Description (Properties f)))]),
        (''geometry'',
           JObject [(''type'', JString (GType (Geometry f))),
                    (''coordinates'', encode_float64s (Coordinates (Geometry f)))])]"

definition encode_FeatureCollection :: "FeatureCollection \<Rightarrow> json" where
  "encode_FeatureCollection fc =
     JObject
       [(''type'', JString (FCType fc)),
        (''features'',
           (case Features fc of
              None \<Rightarrow> JNull
            | Some (fs, spare) \<Rightarrow> JArray (map encode_LocationFeature fs)))]"

section \<open>\<open>net/http\<close>: requests and the response writer\<close>

text \<open>
  A request as the handlers read it: the method, the path variables that \<open>mux.Vars\<close>
  returns for the matched route, and the body.
\<close>

record Request =
  Method :: string
  Vars :: "(string \<times> string) list"
  Body :: body

text \<open>
  A string handed to \<open>http.Error\<close> is a literal of the source or the text
  \<open>err.Error()\<close> of an error value.
\<close>

datatype message = Literal string | Error error

text \<open>
  What is written to the response: \<open>fmt.Fprintln\<close> of a message by \<open>http.Error\<close>, or one
  JSON value followed by a newline by \<open>Encoder.Encode\<close>.
\<close>

datatype chunk = Println message | EncodedJSON json

text \<open>
  The response writer: the header map, the status once it is written, and the body so
  far. The header is sent with the status, so a header set afterwards does not reach
  the client and the model drops it.
\<close>

record ResponseWriter =
  header :: "string \<rightharpoonup> string"
  status :: "nat option"
  written :: "chunk list"

definition newResponseWriter :: ResponseWriter where
  "newResponseWriter = \<lparr>header = Map.empty, status = None, written = []\<rparr>"

definition StatusOK :: nat where "StatusOK = 200"
definition StatusBadRequest :: nat where "StatusBadRequest = 400"
definition StatusNotFound :: nat where "StatusNotFound = 404"
definition StatusInternalServerError :: nat where "StatusInternalServerError = 500"

definition Header_Set :: "ResponseWriter \<Rightarrow> string \<Rightarrow> string \<Rightarrow> ResponseWriter" where
  "Header_Set w k v = (if status w = None then w\<lparr>header := (header w)(k \<mapsto> v)\<rparr> else w)"

definition WriteHeader :: "ResponseWriter \<Rightarrow> nat \<Rightarrow> ResponseWriter" where
  "WriteHeader w code = (if status w = None then w\<lparr>status := Some code\<rparr> else w)"

text \<open>The first write sends status 200 when no status has been written.\<close>

definition Write :: "ResponseWriter \<Rightarrow> chunk \<Rightarrow> ResponseWriter" where
  "Write w ch = (let w1 = WriteHeader w StatusOK in w1\<lparr>written := written w1 @ [ch]\<rparr>)"

text \<open>
  \<open>http.Error\<close> replaces the content type by that of its plain-text message, sets
  \<open>X-Content-Type-Options\<close>, writes the status and prints the message.
\<close>

definition http_Error :: "ResponseWriter \<Rightarrow> message \<Rightarrow> nat \<Rightarrow> ResponseWriter" where
  "http_Error w msg code =
     (let w1 = Header_Set w ''Content-Type'' ''text/plain; charset=utf-8'';
          w2 = Header_Set w1 ''X-Content-Type-Options'' ''nosniff'';
          w3 = WriteHeader w2 code
      in Write w3 (Println msg))"

definition json_Encode :: "ResponseWriter \<Rightarrow> json \<Rightarrow> ResponseWriter" where
  "json_Encode w v = Write w (EncodedJSON v)"

text \<open>The status the client receives: 200 when the handler returns without writing one.\<close>

definition statusCode :: "ResponseWriter \<Rightarrow> nat" where
  "statusCode w = (case status w of None \<Rightarrow> StatusOK | Some code \<Rightarrow> code)"

section \<open>The document store\<close>

text \<open>
  The collection holds BSON documents in insertion order. Every call of the driver is
  also recorded, with its arguments as the handler passed them, so that what a handler
  asked of the store can be stated apart from what the store did.

  What a call meets outside the program is given by a \<open>driver\<close> value: the error with
  which the round trip fails, if it does (time-out, lost connection), the same for
  reading the cursor, and the identifier that \<open>primitive.NewObjectID()\<close> yields when the
  document has none. A failed round trip leaves the documents as they were.
\<close>

datatype call =
    InsertOneCall LocationFeature
  | FindCall bson_M
  | UpdateOneCall bson_M bson_M
  | DeleteOneCall bson_M

record collection =
  docs :: "bson_M list"
  calls :: "call list"

record driver =
  fault :: "error option"
  cursor_fault :: "error option"
  NewObjectID :: ObjectID

record InsertOneResult =
  InsertedID :: ObjectID

record UpdateResult =
  MatchedCount :: int
  ModifiedCount :: int

record DeleteResult =
  DeletedCount :: int

subsection \<open>Structs as BSON documents\<close>

definition marshal_Properties :: "Properties \<Rightarrow> bson" where
  "marshal_Properties p =
     BDocument [(''name'', BString (Name p)), (''description'', BString (Description p))]"

definition marshal_Geometry :: "Geometry \<Rightarrow> bson" where
  "marshal_Geometry g =
     BDocument
       [(''type'', BString (GType g)),
        (''coordinates'',
           (case Coordinates g of
              None \<Rightarrow> BNull
            | Some (xs, spare) \<Rightarrow> BArray (map BDouble xs)))]"

text \<open>The tag \<open>bson:"_id,omitempty"\<close> leaves \<open>_id\<close> out when the identifier is zero.\<close>

definition marshal_LocationFeature :: "LocationFeature \<Rightarrow> bson_M" where
  "marshal_LocationFeature f =
     (if IsZero (ID f) then [] else [(''_id'', BObjectID (ID f))]) @
     [(''type'', BString (Type f)),
      (''properties'', marshal_Properties (Properties f)),
      (''geometry'', marshal_Geometry (Geometry f))]"

text \<open>
  Reading a stored document back into the struct, field by field; an absent field and
  a BSON null give the zero value, a value of another kind is an error. An \<open>ObjectID\<close>
  is also read from a string, of 24 hexadecimal digits or of twelve bytes.
\<close>

definition get_string :: "string \<Rightarrow> bson_M \<Rightarrow> string \<Rightarrow> error + string" where
  "get_string fld d k =
     (case map_of d k of
        None \<Rightarrow> Inr []
      | Some BNull \<Rightarrow> Inr []
      | Some (BString s) \<Rightarrow> Inr s
      | Some _ \<Rightarrow> Inl (BsonDecodeError fld))"

fun get_doubles :: "bson list \<Rightarrow> float64 list option" where
  "get_doubles [] = Some []"
| "get_doubles (BDouble x # vs) = map_option ((#) x) (get_doubles vs)"
| "get_doubles (BNull # vs) = map_option ((#) 0) (get_doubles vs)"
| "get_doubles (_ # vs) = None"

definition unmarshal_Properties :: "bson_M \<Rightarrow> error + Properties" where
  "unmarshal_Properties d =
     (case get_string ''properties.name'' d ''name'' of
        Inl e \<Rightarrow> Inl e
      | Inr n \<Rightarrow>
          (case get_string ''properties.description'' d ''description'' of
             Inl e \<Rightarrow> Inl e
           | Inr ds \<Rightarrow> Inr \<lparr>Name = n, Description = ds\<rparr>))"

definition unmarshal_Geometry :: "bson_M \<Rightarrow> error + Geometry" where
  "unmarshal_Geometry d =
     (case get_string ''geometry.type'' d ''type'' of
        Inl e \<Rightarrow> Inl e
      | Inr t \<Rightarrow>
          (case map_of d ''coordinates'' of
             None \<Rightarrow> Inr \<lparr>GType = t, Coordinates = None\<rparr>
           | Some BNull \<Rightarrow> Inr \<lparr>GType = t, Coordinates = None\<rparr>
           | Some (BArray vs) \<Rightarrow>
               (case get_doubles vs of
                  None \<Rightarrow> Inl (BsonDecodeError ''geometry.coordinates'')
                | Some xs \<Rightarrow> Inr \<lparr>GType = t, Coordinates = Some (xs, [])\<rparr>)
           | Some _ \<Rightarrow> Inl (BsonDecodeError ''geometry.coordinates'')))"

definition unmarshal_LocationFeature :: "bson_M \<Rightarrow> error + LocationFeature" where
  "unmarshal_LocationFeature d =
     (case (case map_of d ''_id'' of
              None \<Rightarrow> Inr NilObjectID
            | Some BNull \<Rightarrow> Inr NilObjectID
            | Some (BObjectID oid) \<Rightarrow> Inr oid
            | Some (BString str) \<Rightarrow>
                (case ObjectIDFromHex str of
                   Inr oid \<Rightarrow> Inr oid
                 | Inl e \<Rightarrow>
                     if length str = 12 then Inr (raw_bytes str)
                     else Inl (BsonDecodeError ''_id''))
            | Some _ \<Rightarrow> Inl (BsonDecodeError ''_id'')) of
        Inl e \<Rightarrow> Inl e
      | Inr oid \<Rightarrow>
          (case get_string ''type'' d ''type'' of
             Inl e \<Rightarrow> Inl e
           | Inr t \<Rightarrow>
               (case (case map_of d ''properties'' of
                        None \<Rightarrow> Inr \<lparr>Name = [], Description = []\<rparr>
                      | Some BNull \<Rightarrow> Inr \<lparr>Name = [], Description = []\<rparr>
                      | Some (BDocument pd) \<Rightarrow> unmarshal_Properties pd
                      | Some _ \<Rightarrow> Inl (BsonDecodeError ''properties'')) of
                  Inl e \<Rightarrow> Inl e
                | Inr p \<Rightarrow>
                    (case (case map_of d ''geometry'' of
                             None \<Rightarrow> Inr \<lparr>GType = [], Coordinates = None\<rparr>
                           | Some BNull \<Rightarrow> Inr \<lparr>GType = [], Coordinates = None\<rparr>
                           | Some (BDocument gd) \<Rightarrow> unmarshal_Geometry gd
                           | Some _ \<Rightarrow> Inl (BsonDecodeError ''geometry'')) of
                       Inl e \<Rightarrow> Inl e
                     | Inr g \<Rightarrow> Inr \<lparr>ID = oid, Type = t, Properties = p, Geometry = g\<rparr>))))"

fun unmarshal_all :: "bson_M list \<Rightarrow> error + LocationFeature list" where
  "unmarshal_all [] = Inr []"
| "unmarshal_all (d # ds) =
     (case unmarshal_LocationFeature d of
        Inl e \<Rightarrow> Inl e
      | Inr f \<Rightarrow> (case unmarshal_all ds of Inl e \<Rightarrow> Inl e | Inr fs \<Rightarrow> Inr (f # fs)))"

subsection \<open>The calls of the driver\<close>

text \<open>
  A filter \<open>bson.M{k: v, ...}\<close> selects the documents that hold \<open>v\<close> under \<open>k\<close> for each
  of its pairs; the empty filter selects all.
\<close>

definition matches :: "bson_M \<Rightarrow> bson_M \<Rightarrow> bool" where
  "matches flt d = list_all (\<lambda>(k, v). map_of d k = Some v) flt"

definition id_of :: "bson_M \<Rightarrow> bson option" where
  "id_of d = map_of d ''_id''"

text \<open>
  \<open>InsertOne\<close>: the driver adds a generated \<open>_id\<close> in front of a document that has none;
  the server refuses a document whose \<open>_id\<close> is already in the collection.
\<close>

definition InsertOne :: "driver \<Rightarrow> collection \<Rightarrow> LocationFeature \<Rightarrow> (error + InsertOneResult) \<times> collection" where
  "InsertOne drv c f =
     (let c1 = c\<lparr>calls := calls c @ [InsertOneCall f]\<rparr>;
          d = marshal_LocationFeature f
      in case fault drv of
           Some e \<Rightarrow> (Inl e, c1)
         | None \<Rightarrow>
             (let oid = (if IsZero (ID f) then NewObjectID drv else ID f);
                  d' = (if IsZero (ID f) then (''_id'', BObjectID oid) # d else d)
              in if Some (BObjectID oid) \<in> set (map id_of (docs c))
                 then (Inl (DuplicateKey oid), c1)
                 else (Inr \<lparr>InsertedID = oid\<rparr>, c1\<lparr>docs := docs c @ [d']\<rparr>)))"

text \<open>\<open>Find\<close> returns a cursor over the selected documents, in the collection's order.\<close>

definition Find :: "driver \<Rightarrow> collection \<Rightarrow> bson_M \<Rightarrow> (error + bson_M list) \<times> collection" where
  "Find drv c flt =
     (let c1 = c\<lparr>calls := calls c @ [FindCall flt]\<rparr>
      in case fault drv of
           Some e \<Rightarrow> (Inl e, c1)
         | None \<Rightarrow> (Inr (filter (matches flt) (docs c)), c1))"

text \<open>
  \<open>cursor.All(ctx, &features)\<close> decodes every document into the slice, from its first
  element on, and stores the slice \<open>features[0:n]\<close> of the \<open>n\<close> decoded elements: with no
  document that is the slice it was given cut to length zero, so \<open>nil\<close> stays \<open>nil\<close> and an
  allocated slice becomes empty.
\<close>

definition cursor_All :: "driver \<Rightarrow> bson_M list \<Rightarrow> LocationFeature slice \<Rightarrow> error + LocationFeature slice" where
  "cursor_All drv cursor features =
     (case cursor_fault drv of
        Some e \<Rightarrow> Inl e
      | None \<Rightarrow>
          (case unmarshal_all cursor of
             Inl e \<Rightarrow> Inl e
           | Inr fs \<Rightarrow>
               (let mem = (case features of None \<Rightarrow> [] | Some (cur, spare) \<Rightarrow> cur @ spare)
                in if fs = [] \<and> features = None then Inr None
                   else Inr (Some (fs, drop (length fs) mem)))))"

text \<open>
  \<open>$set\<close> gives each named field its new value, in place when the document has the
  field and at the end otherwise.
\<close>

fun set_field :: "string \<Rightarrow> bson \<Rightarrow> bson_M \<Rightarrow> bson_M" where
  "set_field k v [] = [(k, v)]"
| "set_field k v ((k', v') # d) =
     (if k' = k then (k, v) # d else (k', v') # set_field k v d)"

definition apply_set :: "bson_M \<Rightarrow> bson_M \<Rightarrow> bson_M" where
  "apply_set sets d = fold (\<lambda>(k, v). set_field k v) sets d"

fun update_first :: "(bson_M \<Rightarrow> bool) \<Rightarrow> (bson_M \<Rightarrow> bson_M) \<Rightarrow> bson_M list \<Rightarrow> bson_M list \<times> bson_M option" where
  "update_first P g [] = ([], None)"
| "update_first P g (d # ds) =
     (if P d then (g d # ds, Some d)
      else (let (ds', m) = update_first P g ds in (d # ds', m)))"

text \<open>
  \<open>UpdateOne\<close> changes the first selected document. The handlers only send \<open>$set\<close>;
  any other update document is answered with an error.
\<close>

fun set_operator :: "bson_M \<Rightarrow> bson_M option" where
  "set_operator [(k, BDocument sets)] = (if k = ''$set'' then Some sets else None)"
| "set_operator _ = None"

definition UpdateOne :: "driver \<Rightarrow> collection \<Rightarrow> bson_M \<Rightarrow> bson_M \<Rightarrow> (error + UpdateResult) \<times> collection" where
  "UpdateOne drv c flt upd =
     (let c1 = c\<lparr>calls := calls c @ [UpdateOneCall flt upd]\<rparr>
      in case fault drv of
           Some e \<Rightarrow> (Inl e, c1)
         | None \<Rightarrow>
             (case set_operator upd of
                None \<Rightarrow> (Inl BadUpdate, c1)
              | Some sets \<Rightarrow>
                  (let (ds, m) = update_first (matches flt) (apply_set sets) (docs c)
                   in (Inr \<lparr>MatchedCount = (case m of None \<Rightarrow> 0 | Some d \<Rightarrow> 1),
                            ModifiedCount =
                              (case m of None \<Rightarrow> 0
                               | Some d \<Rightarrow> if apply_set sets d = d then 0 else 1)\<rparr>,
                       c1\<lparr>docs := ds\<rparr>))))"

fun delete_first :: "(bson_M \<Rightarrow> bool) \<Rightarrow> bson_M list \<Rightarrow> bson_M list \<times> int" where
  "delete_first P [] = ([], 0)"
| "delete_first P (d # ds) =
     (if P d then (ds, 1)
      else (let (ds', n) = delete_first P ds in (d # ds', n)))"

text \<open>\<open>DeleteOne\<close> removes the first selected document and counts what it removed.\<close>

definition DeleteOne :: "driver \<Rightarrow> collection \<Rightarrow> bson_M \<Rightarrow> (error + DeleteResult) \<times> collection" where
  "DeleteOne drv c flt =
     (let c1 = c\<lparr>calls := calls c @ [DeleteOneCall flt]\<rparr>
      in case fault drv of
           Some e \<Rightarrow> (Inl e, c1)
         | None \<Rightarrow>
             (let (ds, n) = delete_first (matches flt) (docs c)
              in (Inr \<lparr>DeletedCount = n\<rparr>, c1\<lparr>docs := ds\<rparr>)))"

section \<open>The handlers\<close>

text \<open>
  A handler takes the response writer and the request, as in Go, and besides them the
  collection (the global \<open>collection\<close> of the source) and the \<open>driver\<close> value of its store
  call; it returns the writer and the collection as it leaves them. The time-out
  contexts bound the store call, whose expiry is a \<open>fault\<close>.
\<close>

type_synonym handler =
  "driver \<Rightarrow> ResponseWriter \<Rightarrow> Request \<Rightarrow> collection \<Rightarrow> ResponseWriter \<times> collection"

text \<open>\<open>params["id"]\<close>: a missing key of a Go map reads as the empty string.\<close>

definition param :: "(string \<times> string) list \<Rightarrow> string \<Rightarrow> string" where
  "param params k = (case map_of params k of None \<Rightarrow> [] | Some v \<Rightarrow> v)"

definition encode_InsertOneResult :: "InsertOneResult \<Rightarrow> json" where
  "encode_InsertOneResult res = JObject [(''InsertedID'', JString (Hex (InsertedID res)))]"

text \<open>
  \<^verbatim>\<open>
  func createLocation(w http.ResponseWriter, r *http.Request) {
      w.Header().Set("Content-Type", "application/json")
      var feature LocationFeature
      if err := json.NewDecoder(r.Body).Decode(&feature); err != nil {
          http.Error(w, err.Error(), http.StatusBadRequest)
          return
      }
      feature.Type = "Feature"
      ctx, cancel := context.WithTimeout(context.Background(), 5*time.Second)
      defer cancel()
      result, err := collection.InsertOne(ctx, feature)
      if err != nil {
          http.Error(w, err.Error(), http.StatusInternalServerError)
          return
      }
      json.NewEncoder(w).Encode(result)
  }
  \<close>
  The two copies of this handler, in package \<open>api\<close> and in package \<open>main\<close>, are the same;
  so are those of \<open>updateLocation\<close> and \<open>deleteLocation\<close>.
\<close>

definition createLocation :: handler where
  "createLocation drv w r c =
     (let w = Header_Set w ''Content-Type'' ''application/json''
      in case json_Decode (Body r) zeroLocationFeature of
           Inl err \<Rightarrow> (http_Error w (Error err) StatusBadRequest, c)
         | Inr feature \<Rightarrow>
             (let feature = feature\<lparr>Type := ''Feature''\<rparr>
              in case InsertOne drv c feature of
                   (Inl err, c') \<Rightarrow> (http_Error w (Error err) StatusInternalServerError, c')
                 | (Inr result, c') \<Rightarrow> (json_Encode w (encode_InsertOneResult result), c')))"

text \<open>
  \<open>getLocations\<close> of package \<open>api\<close>:
  \<^verbatim>\<open>
      w.Header().Set("Content-Type", "application/json")
      var features []LocationFeature
      ...
      cursor, err := collection.Find(ctx, bson.M{})
      if err != nil {
          http.Error(w, err.Error(), http.StatusInternalServerError)
          return
      }
      defer cursor.Close(ctx)
      // Pastikan array tidak nil
      features = make([]LocationFeature, 0)
      if err = cursor.All(ctx, &features); err != nil {
          http.Error(w, err.Error(), http.StatusInternalServerError)
          return
      }
      featureCollection := FeatureCollection{Type: "FeatureCollection", Features: features}
      json.NewEncoder(w).Encode(featureCollection)
  \<close>
\<close>

definition getLocations :: handler where
  "getLocations drv w r c =
     (let w = Header_Set w ''Content-Type'' ''application/json'';
          features = (None :: LocationFeature slice)
      in case Find drv c [] of
           (Inl err, c') \<Rightarrow> (http_Error w (Error err) StatusInternalServerError, c')
         | (Inr cursor, c') \<Rightarrow>
             (let features = Some ([], [])
              in case cursor_All drv cursor features of
                   Inl err \<Rightarrow> (http_Error w (Error err) StatusInternalServerError, c')
                 | Inr features \<Rightarrow>
                     (let featureCollection =
                            \<lparr>FCType = ''FeatureCollection'', Features = features\<rparr>
                      in (json_Encode w (encode_FeatureCollection featureCollection), c'))))"

text \<open>
  \<open>getLocations\<close> of package \<open>main\<close> is the same handler without the line
  \<open>features = make([]LocationFeature, 0)\<close>: \<open>cursor.All\<close> receives the \<open>nil\<close> slice that
  \<open>var features []LocationFeature\<close> declares.
\<close>

definition getLocations_main :: handler where
  "getLocations_main drv w r c =
     (let w = Header_Set w ''Content-Type'' ''application/json'';
          features = (None :: LocationFeature slice)
      in case Find drv c [] of
           (Inl err, c') \<Rightarrow> (http_Error w (Error err) StatusInternalServerError, c')
         | (Inr cursor, c') \<Rightarrow>
             (case cursor_All drv cursor features of
                Inl err \<Rightarrow> (http_Error w (Error err) StatusInternalServerError, c')
              | Inr features \<Rightarrow>
                  (let featureCollection =
                         \<lparr>FCType = ''FeatureCollection'', Features = features\<rparr>
                   in (json_Encode w (encode_FeatureCollection featureCollection), c'))))"

text \<open>
  \<^verbatim>\<open>
  func updateLocation(w http.ResponseWriter, r *http.Request) {
      w.Header().Set("Content-Type", "application/json")
      params := mux.Vars(r)
      id, err := primitive.ObjectIDFromHex(params["id"])
      if err != nil {
          http.Error(w, "Invalid ID format", http.StatusBadRequest)
          return
      }
      var feature LocationFeature
      if err := json.NewDecoder(r.Body).Decode(&feature); err != nil {
          http.Error(w, err.Error(), http.StatusBadRequest)
          return
      }
      ...
      update := bson.M{
          "$set": bson.M{
              "properties": feature.Properties,
              "geometry":   feature.Geometry,
          },
      }
      _, err = collection.UpdateOne(ctx, bson.M{"_id": id}, update)
      if err != nil {
          http.Error(w, err.Error(), http.StatusInternalServerError)
          return
      }
      json.NewEncoder(w).Encode(feature)
  }
  \<close>
\<close>

definition updateLocation :: handler where
  "updateLocation drv w r c =
     (let w = Header_Set w ''Content-Type'' ''application/json'';
          params = Vars r
      in case ObjectIDFromHex (param params ''id'') of
           Inl err \<Rightarrow> (http_Error w (Literal ''Invalid ID format'') StatusBadRequest, c)
         | Inr oid \<Rightarrow>
             (case json_Decode (Body r) zeroLocationFeature of
                Inl err \<Rightarrow> (http_Error w (Error err) StatusBadRequest, c)
              | Inr feature \<Rightarrow>
                  (let update =
                         [(''$set'',
                           BDocument
                             [(''properties'', marshal_Properties (Properties feature)),
                              (''geometry'', marshal_Geometry (Geometry feature))])]
                   in case UpdateOne drv c [(''_id'', BObjectID oid)] update of
                        (Inl err, c') \<Rightarrow>
                          (http_Error w (Error err) StatusInternalServerError, c')
                      | (Inr _, c') \<Rightarrow>
                          (json_Encode w (encode_LocationFeature feature), c'))))"

text \<open>
  \<^verbatim>\<open>
  func deleteLocation(w http.ResponseWriter, r *http.Request) {
      w.Header().Set("Content-Type", "application/json")
      params := mux.Vars(r)
      id, err := primitive.ObjectIDFromHex(params["id"])
      if err != nil {
          http.Error(w, "Invalid ID format", http.StatusBadRequest)
          return
      }
      ...
      result, err := collection.DeleteOne(ctx, bson.M{"_id": id})
      if err != nil {
          http.Error(w, err.Error(), http.StatusInternalServerError)
          return
      }
      if result.DeletedCount == 0 {
          http.Error(w, "Location not found", http.StatusNotFound)
          return
      }
      json.NewEncoder(w).Encode(map[string]string{"message": "Location deleted successfully"})
  }
  \<close>
\<close>

definition deleteLocation :: handler where
  "deleteLocation drv w r c =
     (let w = Header_Set w ''Content-Type'' ''application/json'';
          params = Vars r
      in case ObjectIDFromHex (param params ''id'') of
           Inl err \<Rightarrow> (http_Error w (Literal ''Invalid ID format'') StatusBadRequest, c)
         | Inr oid \<Rightarrow>
             (case DeleteOne drv c [(''_id'', BObjectID oid)] of
                (Inl err, c') \<Rightarrow> (http_Error w (Error err) StatusInternalServerError, c')
              | (Inr result, c') \<Rightarrow>
                  if DeletedCount result = 0
                  then (http_Error w (Literal ''Location not found'') StatusNotFound, c')
                  else (json_Encode w
                          (JObject [(''message'', JString ''Location deleted successfully'')]),
                        c')))"

text \<open>
  \<^verbatim>\<open>
  func corsMiddleware(next http.Handler) http.Handler {
      return http.HandlerFunc(func(w http.ResponseWriter, r *http.Request) {
          w.Header().Set("Access-Control-Allow-Origin", "*")
          w.Header().Set("Access-Control-Allow-Methods", "GET, POST, PUT, DELETE, OPTIONS")
          w.Header().Set("Access-Control-Allow-Headers", "Content-Type, Authorization, X-Requested-With")
          if r.Method == "OPTIONS" {
              w.WriteHeader(http.StatusOK)
              return
          }
          next.ServeHTTP(w, r)
      })
  }
  \<close>
\<close>

definition corsMiddleware :: "handler \<Rightarrow> handler" where
  "corsMiddleware next drv w r c =
     (let w = Header_Set w ''Access-Control-Allow-Origin'' ''*'';
          w = Header_Set w ''Access-Control-Allow-Methods'' ''GET, POST, PUT, DELETE, OPTIONS'';
          w = Header_Set w ''Access-Control-Allow-Headers''
                ''Content-Type, Authorization, X-Requested-With''
      in if Method r = ''OPTIONS'' then (WriteHeader w StatusOK, c)
         else next drv w r c)"

text \<open>
  \<open>SetupRouter\<close> puts the middleware in front of the handler of every route
  (\<open>r.Use(corsMiddleware)\<close>) and registers four routes, each for its method and for
  \<open>OPTIONS\<close>:
  \<^verbatim>\<open>
  r.HandleFunc("/locations", getLocations).Methods("GET", "OPTIONS")
  r.HandleFunc("/locations", createLocation).Methods("POST", "OPTIONS")
  r.HandleFunc("/locations/{id}", updateLocation).Methods("PUT", "OPTIONS")
  r.HandleFunc("/locations/{id}", deleteLocation).Methods("DELETE", "OPTIONS")
  \<close>
\<close>

definition routes :: "(string \<times> string list \<times> handler) list" where
  "routes =
     [(''/locations'', [''GET'', ''OPTIONS''], getLocations),
      (''/locations'', [''POST'', ''OPTIONS''], createLocation),
      (''/locations/{id}'', [''PUT'', ''OPTIONS''], updateLocation),
      (''/locations/{id}'', [''DELETE'', ''OPTIONS''], deleteLocation)]"

text \<open>The fields of the \<open>$set\<close> document that \<open>updateLocation\<close> builds.\<close>

definition set_update :: "LocationFeature \<Rightarrow> bson_M" where
  "set_update feature =
     [(''properties'', marshal_Properties (Properties feature)),
      (''geometry'', marshal_Geometry (Geometry feature))]"

text \<open>The members of a JSON object whose key selects the field \<open>name\<close> of a struct.\<close>

definition members_for :: "string \<Rightarrow> (string \<times> json) list \<Rightarrow> (string \<times> json) list" where
  "members_for name ms = filter (\<lambda>(k, v). foldName k = name) ms"

text \<open>
  What a resource handler leaves in a writer to which nothing was written: status 200
  under the content type it set, or an error status under the content type of
  \<open>http.Error\<close>.
\<close>

definition answered :: "ResponseWriter \<Rightarrow> bool" where
  "answered w \<longleftrightarrow>
     (status w = Some 200 \<and> header w ''Content-Type'' = Some ''application/json'')
     \<or> (status w \<in> {Some 400, Some 404, Some 500}
        \<and> header w ''Content-Type'' = Some ''text/plain; charset=utf-8'')"

section \<open>Sample requests\<close>

text \<open>
  The feature of the specification's first test: properties \<open>{name: "A", description:
  "d"}\<close>, geometry \<open>{type: "Point", coordinates: [1, 2]}\<close>, sent with a type and an id of
  the client's choosing.
\<close>

definition sampleID :: ObjectID where
  "sampleID = [0x50, 0x7f, 0x1f, 0x77, 0xbc, 0xf8, 0x6c, 0xd7, 0x99, 0x43, 0x90, 0x11]"

definition otherID :: ObjectID where
  "otherID = [0x65, 0x4a, 0x00, 0x01, 0x02, 0x03, 0x04, 0x05, 0x06, 0x07, 0x08, 0x09]"

definition sampleMembers :: "(string \<times> json) list" where
  "sampleMembers =
     [(''type'', JString ''Polygon''),
      (''properties'', JObject [(''name'', JString ''A''), (''description'', JString ''d'')]),
      (''geometry'',
         JObject [(''type'', JString ''Point''), (''coordinates'', JArray [JNumber 1, JNumber 2])])]"

definition sampleBody :: body where
  "sampleBody = JSONValue (JObject ((''id'', JString ''507f1f77bcf86cd799439011'') # sampleMembers))"

definition sampleBodyNoID :: body where
  "sampleBodyNoID = JSONValue (JObject sampleMembers)"

definition sampleFeature :: LocationFeature where
  "sampleFeature =
     \<lparr>ID = sampleID, Type = ''Polygon'',
      Properties = \<lparr>Name = ''A'', Description = ''d''\<rparr>,
      Geometry = \<lparr>GType = ''Point'', Coordinates = Some ([1, 2], [])\<rparr>\<rparr>"

definition sampleDriver :: driver where
  "sampleDriver = \<lparr>fault = None, cursor_fault = None, NewObjectID = otherID\<rparr>"

definition emptyCollection :: collection where
  "emptyCollection = \<lparr>docs = [], calls = []\<rparr>"

text \<open>A collection that holds one record, stored under \<open>sampleID\<close>.\<close>

definition sampleCollection :: collection where
  "sampleCollection =
     \<lparr>docs = [marshal_LocationFeature (sampleFeature\<lparr>Type := ''Feature''\<rparr>)], calls = []\<rparr>"

definition postRequest :: Request where
  "postRequest = \<lparr>Method = ''POST'', Vars = [], Body = sampleBody\<rparr>"

definition postRequestNoID :: Request where
  "postRequestNoID = \<lparr>Method = ''POST'', Vars = [], Body = sampleBodyNoID\<rparr>"

definition getRequest :: Request where
  "getRequest = \<lparr>Method = ''GET'', Vars = [], Body = NotJSON\<rparr>"

text \<open>An update of that record: a body without \<open>id\<close>, with a type of the client's choosing.\<close>

definition updateMembers :: "(string \<times> json) list" where
  "updateMembers =
     [(''type'', JString ''Polygon''),
      (''properties'', JObject [(''name'', JString ''B''), (''description'', JString ''moved'')]),
      (''geometry'',
         JObject [(''type'', JString ''Point''), (''coordinates'', JArray [JNumber 3, JNumber 4])])]"

definition updateFeature :: LocationFeature where
  "updateFeature =
     \<lparr>ID = NilObjectID, Type = ''Polygon'',
      Properties = \<lparr>Name = ''B'', Description = ''moved''\<rparr>,
      Geometry = \<lparr>GType = ''Point'', Coordinates = Some ([3, 4], [])\<rparr>\<rparr>"

definition putRequest :: Request where
  "putRequest =
     \<lparr>Method = ''PUT'', Vars = [(''id'', ''507f1f77bcf86cd799439011'')],
      Body = JSONValue (JObject updateMembers)\<rparr>"

text \<open>
  The same update with an \<open>id\<close> member in the body, another identifier than that of the
  path.
\<close>

definition putRequestWithID :: Request where
  "putRequestWithID =
     \<lparr>Method = ''PUT'', Vars = [(''id'', ''507f1f77bcf86cd799439011'')],
      Body = JSONValue (JObject ((''id'', JString ''654a00010203040506070809'') # updateMembers))\<rparr>"

text \<open>The same update, addressed to an identifier that no record has.\<close>

definition putRequestMissing :: Request where
  "putRequestMissing =
     \<lparr>Method = ''PUT'', Vars = [(''id'', ''654a00010203040506070809'')],
      Body = JSONValue (JObject updateMembers)\<rparr>"

definition putRequestNotJSON :: Request where
  "putRequestNotJSON =
     \<lparr>Method = ''PUT'', Vars = [(''id'', ''507f1f77bcf86cd799439011'')], Body = NotJSON\<rparr>"

definition deleteRequest :: Request where
  "deleteRequest =
     \<lparr>Method = ''DELETE'', Vars = [(''id'', ''507f1f77bcf86cd799439011'')], Body = NotJSON\<rparr>"

definition optionsRequest :: Request where
  "optionsRequest = \<lparr>Method = ''OPTIONS'', Vars = [], Body = NotJSON\<rparr>"

section \<open>Properties\<close>

subsection \<open>Auxiliary facts\<close>

lemmas writer_defs = Header_Set_def WriteHeader_def Write_def http_Error_def json_Encode_def
  statusCode_def StatusOK_def StatusBadRequest_def StatusNotFound_def StatusInternalServerError_def

lemma matches_id: "matches [(''_id'', v)] = (\<lambda>d. id_of d = Some v)"
  by (rule ext) (simp add: matches_def id_of_def)

lemma update_first_none:
  "\<forall>d \<in> set ds. \<not> P d \<Longrightarrow> update_first P g ds = (ds, None)"
  by (induction ds) auto

lemma update_first_pointwise:
  "update_first P g ds = (ds', m) \<Longrightarrow>
     list_all2 (\<lambda>d d'. d' = d \<or> (P d \<and> d' = g d)) ds ds'"
  by (induction ds arbitrary: ds' m) (auto split: if_splits prod.splits simp: list.rel_refl)

lemma update_first_hit:
  "i < length ds \<Longrightarrow> P (ds ! i) \<Longrightarrow> \<forall>j < i. \<not> P (ds ! j) \<Longrightarrow>
     fst (update_first P g ds) ! i = g (ds ! i)"
proof (induction ds arbitrary: i)
  case Nil
  then show ?case by simp
next
  case (Cons d ds)
  show ?case
  proof (cases i)
    case 0
    with Cons.prems show ?thesis by simp
  next
    case (Suc n)
    with Cons.prems have "\<not> P d" by auto
    moreover have "fst (update_first P g ds) ! n = g (ds ! n)"
      using Cons.prems Suc by (intro Cons.IH) auto
    ultimately show ?thesis using Suc by (simp add: split_beta)
  qed
qed

lemma map_of_set_field:
  "map_of (set_field k v d) k' = (if k' = k then Some v else map_of d k')"
  by (induction d) auto

lemma map_of_apply_set2:
  "map_of (apply_set [(k1, v1), (k2, v2)] d) k =
     (if k = k2 then Some v2 else if k = k1 then Some v1 else map_of d k)"
  by (simp add: apply_set_def map_of_set_field)

lemma UpdateOne_set:
  "UpdateOne drv c flt [(''$set'', BDocument sets)] =
     (let c1 = c\<lparr>calls := calls c @ [UpdateOneCall flt [(''$set'', BDocument sets)]]\<rparr>
      in case fault drv of
           Some e \<Rightarrow> (Inl e, c1)
         | None \<Rightarrow>
             (let (ds, m) = update_first (matches flt) (apply_set sets) (docs c)
              in (Inr \<lparr>MatchedCount = (case m of None \<Rightarrow> 0 | Some d \<Rightarrow> 1),
                       ModifiedCount =
                         (case m of None \<Rightarrow> 0
                          | Some d \<Rightarrow> if apply_set sets d = d then 0 else 1)\<rparr>,
                  c1\<lparr>docs := ds\<rparr>)))"
  by (simp add: UpdateOne_def Let_def split: option.splits)

lemma updateLocation_ok:
  assumes "ObjectIDFromHex (param (Vars r) ''id'') = Inr oid"
    and "json_Decode (Body r) zeroLocationFeature = Inr feature"
  shows "updateLocation drv w r c =
     (let w1 = Header_Set w ''Content-Type'' ''application/json''
      in case UpdateOne drv c [(''_id'', BObjectID oid)] [(''$set'', BDocument (set_update feature))] of
           (Inl err, c') \<Rightarrow> (http_Error w1 (Error err) StatusInternalServerError, c')
         | (Inr res, c') \<Rightarrow> (json_Encode w1 (encode_LocationFeature feature), c'))"
  using assms by (simp add: updateLocation_def set_update_def Let_def)

lemma updateLocation_docs:
  assumes "ObjectIDFromHex (param (Vars r) ''id'') = Inr oid"
    and "json_Decode (Body r) zeroLocationFeature = Inr feature"
  shows "docs (snd (updateLocation drv w r c)) =
     (case fault drv of
        Some e \<Rightarrow> docs c
      | None \<Rightarrow> fst (update_first (\<lambda>d. id_of d = Some (BObjectID oid))
                       (apply_set (set_update feature)) (docs c)))"
  by (simp add: updateLocation_ok [OF assms] UpdateOne_set Let_def matches_id split_beta
      split: option.splits)

lemma updateLocation_frame:
  assumes "ObjectIDFromHex (param (Vars r) ''id'') = Inr oid"
    and "json_Decode (Body r) zeroLocationFeature = Inr feature"
    and "k \<noteq> ''properties''" and "k \<noteq> ''geometry''"
  shows "list_all2 (\<lambda>d d'. map_of d' k = map_of d k) (docs c) (docs (snd (updateLocation drv w r c)))"
proof (cases "fault drv")
  case (Some e)
  then show ?thesis by (simp add: updateLocation_docs [OF assms(1,2)] list.rel_refl)
next
  case None
  let ?P = "\<lambda>d. id_of d = Some (BObjectID oid)"
  let ?g = "apply_set (set_update feature)"
  have "list_all2 (\<lambda>d d'. d' = d \<or> (?P d \<and> d' = ?g d)) (docs c) (fst (update_first ?P ?g (docs c)))"
    by (rule update_first_pointwise [of ?P ?g "docs c" _ "snd (update_first ?P ?g (docs c))"]) simp
  then have "list_all2 (\<lambda>d d'. map_of d' k = map_of d k) (docs c) (fst (update_first ?P ?g (docs c)))"
    by (rule list_all2_mono) (use assms(3,4) in \<open>auto simp: set_update_def map_of_apply_set2\<close>)
  with None show ?thesis by (simp add: updateLocation_docs [OF assms(1,2)])
qed


subsection \<open>Decoding\<close>

lemma decode_members_ID:
  "decode_LocationFeature_members ms (f, saved) = Inr (f', saved') \<Longrightarrow>
     members_for ''id'' ms = [] \<Longrightarrow> ID f' = ID f"
proof (induction ms arbitrary: f saved)
  case Nil
  then show ?case by simp
next
  case (Cons m ms)
  obtain k v where m: "m = (k, v)" by (cases m)
  from Cons.prems(2) have k: "foldName k \<noteq> ''id''" and rest: "members_for ''id'' ms = []"
    by (auto simp: m members_for_def split: if_splits)
  from Cons.prems(1) obtain f1 saved1 where
    "decode_LocationFeature_members ms (f1, saved1) = Inr (f', saved')" and "ID f1 = ID f"
    using k by (auto simp: m split_beta split: if_splits)
  with Cons.IH [OF _ rest] show ?case by simp
qed

lemma decode_members_Type_fold:
  "decode_LocationFeature_members ms (f, saved) = Inr (f', saved') \<Longrightarrow>
     Type f' = foldl (\<lambda>cur v. case v of JString s \<Rightarrow> s | _ \<Rightarrow> cur) (Type f)
                 (map snd (members_for ''type'' ms))"
proof (induction ms arbitrary: f saved)
  case Nil
  then show ?case by (simp add: members_for_def)
next
  case (Cons m ms)
  obtain k v where m: "m = (k, v)" by (cases m)
  let ?step = "\<lambda>cur v. case v of JString s \<Rightarrow> s | _ \<Rightarrow> cur"
  from Cons.prems obtain f1 saved1 where
    rest: "decode_LocationFeature_members ms (f1, saved1) = Inr (f', saved')" and
    f1: "Type f1 = (if foldName k = ''type'' then ?step (Type f) v else Type f)"
    by (auto simp: m split_beta decode_string_def split: if_splits sum.splits json.splits)
  from Cons.IH [OF rest] f1 show ?case
    by (simp add: m members_for_def)
qed

lemma decode_members_Type:
  "decode_LocationFeature_members ms (f, saved) = Inr (f', saved') \<Longrightarrow>
     members_for ''type'' ms = [(k, JString t)] \<Longrightarrow> Type f' = t"
  by (simp add: decode_members_Type_fold)

lemma json_Decode_omitted_id:
  assumes "json_Decode (JSONValue (JObject ms)) zeroLocationFeature = Inr feature"
    and "members_for ''id'' ms = []"
  shows "ID feature = NilObjectID"
proof -
  from assms(1) obtain saved where
    "decode_LocationFeature_members ms (zeroLocationFeature, None) = Inr (feature, saved)"
    by (auto simp: json_Decode_def split: sum.splits option.splits)
  from decode_members_ID [OF this assms(2)] show ?thesis
    by (simp add: zeroLocationFeature_def)
qed

lemma hex_digits_table:
  "\<forall>n \<in> set [48, 49, 50, 51, 52, 53, 54, 55, 56, 57 :: nat].
     hexdigit (n - 48) = toLower (char_of n)"
  "\<forall>n \<in> set [97, 98, 99, 100, 101, 102 :: nat].
     hexdigit (n - 97 + 10) = toLower (char_of n)"
  "\<forall>n \<in> set [65, 66, 67, 68, 69, 70 :: nat].
     hexdigit (n - 65 + 10) = toLower (char_of n)"
  by code_simp+

lemma fromHexChar_digit:
  assumes "fromHexChar a = Some p"
  shows "p < 16" and "hexdigit p = toLower a"
proof -
  define n where "n = (of_char a :: nat)"
  have a: "char_of n = a" by (simp add: n_def)
  from assms consider
      "48 \<le> n" "n \<le> 57" "p = n - 48"
    | "97 \<le> n" "n \<le> 102" "p = n - 97 + 10"
    | "65 \<le> n" "n \<le> 70" "p = n - 65 + 10"
    by (auto simp: fromHexChar_def Let_def n_def split: if_splits)
  then have "p < 16 \<and> hexdigit p = toLower a"
  proof cases
    case 1
    then have "n \<in> set [48, 49, 50, 51, 52, 53, 54, 55, 56, 57 :: nat]" by simp arith
    with hex_digits_table(1) have "hexdigit (n - 48) = toLower (char_of n)" by blast
    with 1 a show ?thesis by simp
  next
    case 2
    then have "n \<in> set [97, 98, 99, 100, 101, 102 :: nat]" by simp arith
    with hex_digits_table(2) have "hexdigit (n - 97 + 10) = toLower (char_of n)" by blast
    with 2 a show ?thesis by simp
  next
    case 3
    then have "n \<in> set [65, 66, 67, 68, 69, 70 :: nat]" by simp arith
    with hex_digits_table(3) have "hexdigit (n - 65 + 10) = toLower (char_of n)" by blast
    with 3 a show ?thesis by simp
  qed
  then show "p < 16" and "hexdigit p = toLower a" by simp_all
qed

lemma hex_Decode_Hex:
  "hex_Decode s = Inr bs \<Longrightarrow> Hex bs = map toLower s"
proof (induction s arbitrary: bs rule: hex_Decode.induct)
  case (1 a b rest)
  from "1.prems" obtain p q bs' where
    p: "fromHexChar a = Some p" and q: "fromHexChar b = Some q"
    and r: "hex_Decode rest = Inr bs'" and bs: "bs = of_nat (16 * p + q) # bs'"
    by (auto split: option.splits sum.splits)
  note dp = fromHexChar_digit [OF p] and dq = fromHexChar_digit [OF q]
  have "unat (of_nat (16 * p + q) :: 8 word) = (16 * p + q) mod 2 ^ LENGTH(8)"
    by (rule unat_of_nat)
  with dp(1) dq(1) have u: "unat (of_nat (16 * p + q) :: 8 word) = 16 * p + q"
    by simp
  have "Hex bs' = map toLower rest"
    using "1.IH" [OF p q r] .
  with u dp dq show ?case
    by (simp add: bs Hex_def)
next
  case (2 a)
  then show ?case by (simp split: option.splits)
next
  case 3
  then show ?case by (simp add: Hex_def)
qed

lemma ObjectID_UnmarshalJSON_hex:
  assumes "ObjectIDFromHex str = Inr oid"
  shows "ObjectID_UnmarshalJSON (JString str) cur = Inr oid"
proof -
  from assms have "length str = 24" and "hex_Decode str = Inr oid"
    by (auto simp: ObjectIDFromHex_def split: if_splits sum.splits)
  then show ?thesis
    by (simp add: ObjectID_UnmarshalJSON_def ObjectID_of_string_def)
qed

lemma decode_members_ID_one:
  "decode_LocationFeature_members ms (f, saved) = Inr (f', saved') \<Longrightarrow>
     members_for ''id'' ms = [(k, v)] \<Longrightarrow> ObjectID_UnmarshalJSON v (ID f) = Inr (ID f')"
proof (induction ms arbitrary: f saved)
  case Nil
  then show ?case by (simp add: members_for_def)
next
  case (Cons m ms)
  obtain k' v' where m: "m = (k', v')" by (cases m)
  show ?case
  proof (cases "foldName k' = ''id''")
    case True
    with Cons.prems(2) have kv: "k' = k" "v' = v" and rest: "members_for ''id'' ms = []"
      by (simp_all add: m members_for_def)
    from Cons.prems(1) True obtain oid where
      u: "ObjectID_UnmarshalJSON v (ID f) = Inr oid" and
      d: "decode_LocationFeature_members ms (f\<lparr>ID := oid\<rparr>, saved) = Inr (f', saved')"
      by (auto simp: m kv split: sum.splits)
    from decode_members_ID [OF d rest] u show ?thesis by simp
  next
    case False
    with Cons.prems(2) have rest: "members_for ''id'' ms = [(k, v)]"
      by (simp add: m members_for_def)
    from Cons.prems(1) False obtain f1 saved1 where
      d: "decode_LocationFeature_members ms (f1, saved1) = Inr (f', saved')" and "ID f1 = ID f"
      by (auto simp: m split_beta split: if_splits)
    with Cons.IH [OF d rest] show ?thesis by simp
  qed
qed

lemma json_Decode_submitted_id:
  assumes "json_Decode (JSONValue (JObject ms)) zeroLocationFeature = Inr feature"
    and "members_for ''id'' ms = [(k, JString str)]"
    and "ObjectIDFromHex str = Inr oid"
  shows "ID feature = oid" and "Hex (ID feature) = map toLower str"
proof -
  from assms(1) obtain saved where
    "decode_LocationFeature_members ms (zeroLocationFeature, None) = Inr (feature, saved)"
    by (auto simp: json_Decode_def split: sum.splits option.splits)
  from decode_members_ID_one [OF this assms(2)] ObjectID_UnmarshalJSON_hex [OF assms(3)]
  show id: "ID feature = oid" by simp
  from assms(3) have "hex_Decode str = Inr oid"
    by (auto simp: ObjectIDFromHex_def split: if_splits sum.splits)
  from hex_Decode_Hex [OF this] id show "Hex (ID feature) = map toLower str" by simp
qed

lemma delete_first_count:
  "snd (delete_first P ds) = (if \<exists>d \<in> set ds. P d then 1 else 0)"
  by (induction ds) (auto simp: split_beta)

lemma delete_first_none:
  "\<forall>d \<in> set ds. \<not> P d \<Longrightarrow> delete_first P ds = (ds, 0)"
  by (induction ds) auto

lemma delete_first_distinct:
  "distinct (map h ds) \<Longrightarrow> \<forall>d \<in> set (fst (delete_first (\<lambda>d. h d = x) ds)). h d \<noteq> x"
proof (induction ds)
  case Nil
  then show ?case by simp
next
  case (Cons d ds)
  show ?case
  proof (cases "h d = x")
    case True
    from Cons.prems have "h d \<notin> h ` set ds" by simp
    with True have "\<forall>d' \<in> set ds. h d' \<noteq> x" by (metis imageI)
    with True show ?thesis by simp
  next
    case False
    with Cons show ?thesis by (simp add: split_beta)
  qed
qed

lemma sample_decodes: "json_Decode sampleBody zeroLocationFeature = Inr sampleFeature"
  by code_simp

lemma sample_decodes_without_id:
  "json_Decode sampleBodyNoID zeroLocationFeature = Inr (sampleFeature\<lparr>ID := NilObjectID\<rparr>)"
  by code_simp

lemma sample_id: "ObjectIDFromHex ''507f1f77bcf86cd799439011'' = Inr sampleID"
  by code_simp

text \<open>
  Claim C1. For every body that Create accepts, the record handed to the store's insert
  is the decoded feature with its type overwritten by the literal \<open>"Feature"\<close>, whatever
  type the client sent; the document that the store then holds has that type.
\<close>

theorem createLocation_forces_type:
  assumes "json_Decode (Body r) zeroLocationFeature = Inr feature"
  shows "calls (snd (createLocation drv w r c)) =
           calls c @ [InsertOneCall (feature\<lparr>Type := ''Feature''\<rparr>)]
         \<and> Type (feature\<lparr>Type := ''Feature''\<rparr>) = ''Feature''
         \<and> (docs (snd (createLocation drv w r c)) = docs c
            \<or> (\<exists>d. docs (snd (createLocation drv w r c)) = docs c @ [d]
                    \<and> map_of d ''type'' = Some (BString ''Feature'')))"
  using assms
  by (simp add: createLocation_def InsertOne_def marshal_LocationFeature_def Let_def
      split: sum.splits option.splits)

theorem createLocation_forces_type_witness:
  "json_Decode (Body postRequest) zeroLocationFeature = Inr sampleFeature
   \<and> Type sampleFeature = ''Polygon''
   \<and> calls (snd (createLocation sampleDriver newResponseWriter postRequest emptyCollection)) =
       [InsertOneCall (sampleFeature\<lparr>Type := ''Feature''\<rparr>)]
   \<and> map (\<lambda>d. map_of d ''type'')
        (docs (snd (createLocation sampleDriver newResponseWriter postRequest emptyCollection))) =
       [Some (BString ''Feature'')]"
proof -
  have h: "json_Decode (Body postRequest) zeroLocationFeature = Inr sampleFeature"
    by (simp add: postRequest_def sample_decodes)
  have "map (\<lambda>d. map_of d ''type'')
        (docs (snd (createLocation sampleDriver newResponseWriter postRequest emptyCollection))) =
       [Some (BString ''Feature'')]"
    by code_simp
  with h createLocation_forces_type [OF h, of sampleDriver newResponseWriter emptyCollection]
  show ?thesis by (simp add: emptyCollection_def sampleFeature_def)
qed

text \<open>
  Claim C7. A request with method \<open>OPTIONS\<close> gets the three CORS headers and status 200 from
  the middleware, with nothing written to the body; the handler behind the middleware is
  not run (the answer is the same for every \<open>next\<close>) and the collection is returned as it
  was, without any call recorded.
\<close>

theorem corsMiddleware_OPTIONS:
  assumes "Method r = ''OPTIONS''"
  shows "corsMiddleware next drv newResponseWriter r c =
           (\<lparr>header = [''Access-Control-Allow-Origin'' \<mapsto> ''*'',
                        ''Access-Control-Allow-Methods'' \<mapsto> ''GET, POST, PUT, DELETE, OPTIONS'',
                        ''Access-Control-Allow-Headers'' \<mapsto>
                           ''Content-Type, Authorization, X-Requested-With''],
             status = Some 200, written = []\<rparr>, c)"
  using assms by (simp add: corsMiddleware_def newResponseWriter_def writer_defs)

theorem corsMiddleware_OPTIONS_witness:
  "Method optionsRequest = ''OPTIONS''
   \<and> status (fst (corsMiddleware deleteLocation sampleDriver newResponseWriter optionsRequest
                    sampleCollection)) = Some 200
   \<and> written (fst (corsMiddleware deleteLocation sampleDriver newResponseWriter optionsRequest
                    sampleCollection)) = []
   \<and> snd (corsMiddleware deleteLocation sampleDriver newResponseWriter optionsRequest
            sampleCollection) = sampleCollection"
proof -
  have h: "Method optionsRequest = ''OPTIONS''" by (simp add: optionsRequest_def)
  from h corsMiddleware_OPTIONS [OF h, of deleteLocation sampleDriver sampleCollection]
  show ?thesis by simp
qed

text \<open>
  Claim C8. When the body fails to decode, Create answers 400 and returns the collection
  untouched, no call recorded; so does Update, whether or not the identifier of the path
  is well formed.
\<close>

theorem decode_failure_leaves_store:
  assumes "json_Decode (Body r) zeroLocationFeature = Inl e" and "status w = None"
  shows "status (fst (createLocation drv w r c)) = Some 400
         \<and> snd (createLocation drv w r c) = c
         \<and> status (fst (updateLocation drv w r c)) = Some 400
         \<and> snd (updateLocation drv w r c) = c"
  using assms
  by (simp add: createLocation_def updateLocation_def writer_defs Let_def split: sum.splits)

theorem decode_failure_leaves_store_witness:
  "json_Decode (Body putRequestNotJSON) zeroLocationFeature = Inl SyntaxError
   \<and> status newResponseWriter = None
   \<and> status (fst (createLocation sampleDriver newResponseWriter putRequestNotJSON sampleCollection)) = Some 400
   \<and> snd (createLocation sampleDriver newResponseWriter putRequestNotJSON sampleCollection) = sampleCollection
   \<and> status (fst (updateLocation sampleDriver newResponseWriter putRequestNotJSON sampleCollection)) = Some 400
   \<and> snd (updateLocation sampleDriver newResponseWriter putRequestNotJSON sampleCollection) = sampleCollection"
proof -
  have h1: "json_Decode (Body putRequestNotJSON) zeroLocationFeature = Inl SyntaxError"
    by (simp add: putRequestNotJSON_def json_Decode_def)
  have h2: "status newResponseWriter = None" by (simp add: newResponseWriter_def)
  from h1 h2 decode_failure_leaves_store [OF h1 h2, of sampleDriver sampleCollection]
  show ?thesis by simp
qed

lemma InsertOne_ok:
  assumes "fault drv = None"
    and "oid = (if ID f = NilObjectID then NewObjectID drv else ID f)"
  shows "InsertOne drv c f =
     (if Some (BObjectID oid) \<in> set (map id_of (docs c))
      then (Inl (DuplicateKey oid), c\<lparr>calls := calls c @ [InsertOneCall f]\<rparr>)
      else (Inr \<lparr>InsertedID = oid\<rparr>,
            c\<lparr>calls := calls c @ [InsertOneCall f],
              docs := docs c @
                [(''_id'', BObjectID oid) #
                 [(''type'', BString (Type f)),
                  (''properties'', marshal_Properties (Properties f)),
                  (''geometry'', marshal_Geometry (Geometry f))]]\<rparr>))"
  using assms
  by (simp add: InsertOne_def marshal_LocationFeature_def IsZero_def Let_def)

text \<open>
  Claim C2, as amended. The record handed to the store's insert is the decoded feature
  with only its type overwritten, so it carries the decoded id. A body without an \<open>id\<close>
  member decodes to the zero identifier, and then the record is stored under the identifier
  the driver generates; a non-zero identifier from the body is the one the record is
  stored under. The insert is refused when the collection already has that identifier.
\<close>

theorem createLocation_id:
  assumes "json_Decode (Body r) zeroLocationFeature = Inr feature"
    and "fault drv = None" and "status w = None"
    and "oid = (if ID feature = NilObjectID then NewObjectID drv else ID feature)"
  shows "calls (snd (createLocation drv w r c)) =
           calls c @ [InsertOneCall (feature\<lparr>Type := ''Feature''\<rparr>)]
         \<and> ID (feature\<lparr>Type := ''Feature''\<rparr>) = ID feature
         \<and> (\<forall>ms. Body r = JSONValue (JObject ms) \<and> members_for ''id'' ms = []
                \<longrightarrow> ID feature = NilObjectID)
         \<and> (Some (BObjectID oid) \<notin> set (map id_of (docs c)) \<longrightarrow>
               (\<exists>d. docs (snd (createLocation drv w r c)) = docs c @ [d]
                    \<and> id_of d = Some (BObjectID oid))
               \<and> status (fst (createLocation drv w r c)) = Some 200
               \<and> written (fst (createLocation drv w r c)) =
                   written w @ [EncodedJSON (JObject [(''InsertedID'', JString (Hex oid))])])
         \<and> (Some (BObjectID oid) \<in> set (map id_of (docs c)) \<longrightarrow>
               docs (snd (createLocation drv w r c)) = docs c
               \<and> status (fst (createLocation drv w r c)) = Some 500)"
proof -
  have ins: "InsertOne drv c (feature\<lparr>Type := ''Feature''\<rparr>) =
     (if Some (BObjectID oid) \<in> set (map id_of (docs c))
      then (Inl (DuplicateKey oid), c\<lparr>calls := calls c @ [InsertOneCall (feature\<lparr>Type := ''Feature''\<rparr>)]\<rparr>)
      else (Inr \<lparr>InsertedID = oid\<rparr>,
            c\<lparr>calls := calls c @ [InsertOneCall (feature\<lparr>Type := ''Feature''\<rparr>)],
              docs := docs c @
                [(''_id'', BObjectID oid) #
                 [(''type'', BString ''Feature''),
                  (''properties'', marshal_Properties (Properties feature)),
                  (''geometry'', marshal_Geometry (Geometry feature))]]\<rparr>))"
    using InsertOne_ok [OF assms(2), of oid "feature\<lparr>Type := ''Feature''\<rparr>" c] assms(4) by simp
  have omitted: "\<forall>ms. Body r = JSONValue (JObject ms) \<and> members_for ''id'' ms = []
                \<longrightarrow> ID feature = NilObjectID"
    using assms(1) json_Decode_omitted_id by auto
  show ?thesis
    using assms(1,3) omitted
    by (simp add: createLocation_def ins writer_defs encode_InsertOneResult_def id_of_def)
qed

theorem createLocation_id_witness:
  "json_Decode (Body postRequest) zeroLocationFeature = Inr sampleFeature
   \<and> json_Decode (Body postRequestNoID) zeroLocationFeature = Inr (sampleFeature\<lparr>ID := NilObjectID\<rparr>)
   \<and> fault sampleDriver = None \<and> status newResponseWriter = None
   \<and> Some (BObjectID sampleID) \<notin> set (map id_of (docs emptyCollection))
   \<and> Some (BObjectID otherID) \<notin> set (map id_of (docs emptyCollection))
   \<and> map id_of (docs (snd (createLocation sampleDriver newResponseWriter postRequest emptyCollection))) =
       [Some (BObjectID sampleID)]
   \<and> map id_of (docs (snd (createLocation sampleDriver newResponseWriter postRequestNoID emptyCollection))) =
       [Some (BObjectID otherID)]
   \<and> status (fst (createLocation sampleDriver newResponseWriter postRequest sampleCollection)) = Some 500"
proof -
  have h1: "json_Decode (Body postRequest) zeroLocationFeature = Inr sampleFeature"
    by (simp add: postRequest_def sample_decodes)
  have h1': "json_Decode (Body postRequestNoID) zeroLocationFeature = Inr (sampleFeature\<lparr>ID := NilObjectID\<rparr>)"
    by (simp add: postRequestNoID_def sample_decodes_without_id)
  have h2: "fault sampleDriver = None" by (simp add: sampleDriver_def)
  have h3: "status newResponseWriter = None" by (simp add: newResponseWriter_def)
  have h4: "sampleID = (if ID sampleFeature = NilObjectID then NewObjectID sampleDriver else ID sampleFeature)"
    by code_simp
  have h4': "otherID = (if ID (sampleFeature\<lparr>ID := NilObjectID\<rparr>) = NilObjectID
                        then NewObjectID sampleDriver else ID (sampleFeature\<lparr>ID := NilObjectID\<rparr>))"
    by code_simp
  have h5: "Some (BObjectID sampleID) \<in> set (map id_of (docs sampleCollection))"
    by code_simp
  from createLocation_id [OF h1 h2 h3 h4, of emptyCollection]
       createLocation_id [OF h1' h2 h3 h4', of emptyCollection]
       createLocation_id [OF h1 h2 h3 h4, of sampleCollection]
       h1 h1' h2 h3 h5
  show ?thesis by (auto simp: emptyCollection_def)
qed

text \<open>
  Claim C2 as stated fails: two bodies that differ only in the \<open>id\<close> member make Create
  hand different records to the insert, and the record of the body with an id is stored
  under that id, not under the one the driver would generate.
\<close>

theorem createLocation_id_counterexample:
  "sampleBody = JSONValue (JObject ((''id'', JString ''507f1f77bcf86cd799439011'') # sampleMembers))
   \<and> sampleBodyNoID = JSONValue (JObject sampleMembers)
   \<and> calls (snd (createLocation sampleDriver newResponseWriter postRequest emptyCollection)) \<noteq>
       calls (snd (createLocation sampleDriver newResponseWriter postRequestNoID emptyCollection))
   \<and> map id_of (docs (snd (createLocation sampleDriver newResponseWriter postRequest emptyCollection))) =
       [Some (BObjectID sampleID)]
   \<and> Hex sampleID = ''507f1f77bcf86cd799439011''
   \<and> sampleID \<noteq> NewObjectID sampleDriver"
  by code_simp

text \<open>
  Claim C3, on the handler of package \<open>main\<close>: asked for the locations of an empty
  collection, it answers 200 with \<open>{"type":"FeatureCollection","features":null}\<close>.
\<close>

theorem getLocations_main_empty_collection:
  "status (fst (getLocations_main sampleDriver newResponseWriter getRequest emptyCollection)) = Some 200
   \<and> written (fst (getLocations_main sampleDriver newResponseWriter getRequest emptyCollection)) =
       [EncodedJSON (JObject [(''type'', JString ''FeatureCollection''), (''features'', JNull)])]"
  by code_simp

text \<open>
  The handler of package \<open>api\<close> allocates the slice before it reads the cursor, and
  answers \<open>{"type":"FeatureCollection","features":[]}\<close> for an empty collection.
\<close>

lemma getLocations_empty_collection:
  assumes "fault drv = None" and "cursor_fault drv = None" and "docs c = []"
    and "status w = None"
  shows "status (fst (getLocations drv w r c)) = Some 200
         \<and> header (fst (getLocations drv w r c)) ''Content-Type'' = Some ''application/json''
         \<and> written (fst (getLocations drv w r c)) =
             written w @
             [EncodedJSON (JObject [(''type'', JString ''FeatureCollection''), (''features'', JArray [])])]"
  using assms
  by (simp add: getLocations_def Find_def cursor_All_def encode_FeatureCollection_def
      writer_defs Let_def)

lemma update_id: "ObjectIDFromHex (param (Vars putRequest) ''id'') = Inr sampleID"
  by code_simp

lemma update_decodes: "json_Decode (Body putRequest) zeroLocationFeature = Inr updateFeature"
  by code_simp

lemma updateLocation_nth:
  assumes "ObjectIDFromHex (param (Vars r) ''id'') = Inr oid"
    and "json_Decode (Body r) zeroLocationFeature = Inr feature"
    and "k \<noteq> ''properties''" and "k \<noteq> ''geometry''"
  shows "length (docs (snd (updateLocation drv w r c))) = length (docs c)"
    and "i < length (docs c) \<Longrightarrow>
           map_of (docs (snd (updateLocation drv w r c)) ! i) k = map_of (docs c ! i) k"
  using updateLocation_frame [OF assms, of c drv w]
  by (simp_all add: list_all2_conv_all_nth)

text \<open>
  Claim C4. With a well-formed identifier that no stored record has, and a body that
  decodes, a store call that goes through matches and modifies nothing, leaves the
  documents as they were, and the handler answers 200 with the submitted feature; the
  status is not 404.
\<close>

theorem updateLocation_missing_record:
  assumes "ObjectIDFromHex (param (Vars r) ''id'') = Inr oid"
    and "json_Decode (Body r) zeroLocationFeature = Inr feature"
    and "fault drv = None" and "status w = None"
    and "Some (BObjectID oid) \<notin> set (map id_of (docs c))"
  shows "fst (UpdateOne drv c [(''_id'', BObjectID oid)] [(''$set'', BDocument (set_update feature))]) =
           Inr \<lparr>MatchedCount = 0, ModifiedCount = 0\<rparr>
         \<and> docs (snd (updateLocation drv w r c)) = docs c
         \<and> status (fst (updateLocation drv w r c)) = Some 200
         \<and> statusCode (fst (updateLocation drv w r c)) \<noteq> StatusNotFound
         \<and> written (fst (updateLocation drv w r c)) =
             written w @ [EncodedJSON (encode_LocationFeature feature)]"
proof -
  from assms(5) have "\<forall>d \<in> set (docs c). \<not> id_of d = Some (BObjectID oid)"
    by (metis imageI set_map)
  then have "update_first (\<lambda>d. id_of d = Some (BObjectID oid)) (apply_set (set_update feature)) (docs c) =
      (docs c, None)"
    by (rule update_first_none)
  with assms(3,4) show ?thesis
    by (simp add: updateLocation_ok [OF assms(1,2)] UpdateOne_set matches_id writer_defs)
qed

theorem updateLocation_missing_record_witness:
  "ObjectIDFromHex (param (Vars putRequestMissing) ''id'') = Inr otherID
   \<and> json_Decode (Body putRequestMissing) zeroLocationFeature = Inr updateFeature
   \<and> fault sampleDriver = None \<and> status newResponseWriter = None
   \<and> Some (BObjectID otherID) \<notin> set (map id_of (docs sampleCollection))
   \<and> docs (snd (updateLocation sampleDriver newResponseWriter putRequestMissing sampleCollection)) =
       docs sampleCollection
   \<and> status (fst (updateLocation sampleDriver newResponseWriter putRequestMissing sampleCollection)) =
       Some 200
   \<and> written (fst (updateLocation sampleDriver newResponseWriter putRequestMissing sampleCollection)) =
       [EncodedJSON (encode_LocationFeature updateFeature)]"
proof -
  have h1: "ObjectIDFromHex (param (Vars putRequestMissing) ''id'') = Inr otherID"
    by code_simp
  have h2: "json_Decode (Body putRequestMissing) zeroLocationFeature = Inr updateFeature"
    by code_simp
  have h3: "fault sampleDriver = None" by (simp add: sampleDriver_def)
  have h4: "status newResponseWriter = None" by (simp add: newResponseWriter_def)
  have h5: "Some (BObjectID otherID) \<notin> set (map id_of (docs sampleCollection))"
    by code_simp
  from updateLocation_missing_record [OF h1 h2 h3 h4 h5] h1 h2 h3 h4 h5
  show ?thesis by (simp add: newResponseWriter_def)
qed

text \<open>Update has no path that answers 404.\<close>

lemma updateLocation_never_404:
  "status w = None \<Longrightarrow> statusCode (fst (updateLocation drv w r c)) \<noteq> StatusNotFound"
  by (simp add: updateLocation_def writer_defs Let_def split: sum.splits prod.splits)

text \<open>
  Claim C6. The update that Update sends selects by \<open>_id\<close> and sets the two fields
  \<open>properties\<close> and \<open>geometry\<close> to the values of the body. Whatever the body holds, the
  collection keeps its length, and every document keeps the value of every other field,
  \<open>_id\<close> and \<open>type\<close> among them; when the call goes through, the first document under the
  identifier has exactly the body's properties and geometry afterwards.
\<close>

theorem updateLocation_sets_two_fields:
  assumes "ObjectIDFromHex (param (Vars r) ''id'') = Inr oid"
    and "json_Decode (Body r) zeroLocationFeature = Inr feature"
  shows "calls (snd (updateLocation drv w r c)) =
           calls c @
           [UpdateOneCall [(''_id'', BObjectID oid)]
              [(''$set'',
                BDocument [(''properties'', marshal_Properties (Properties feature)),
                           (''geometry'', marshal_Geometry (Geometry feature))])]]
         \<and> length (docs (snd (updateLocation drv w r c))) = length (docs c)
         \<and> (\<forall>i k. i < length (docs c) \<and> k \<noteq> ''properties'' \<and> k \<noteq> ''geometry'' \<longrightarrow>
               map_of (docs (snd (updateLocation drv w r c)) ! i) k = map_of (docs c ! i) k)
         \<and> (\<forall>i. i < length (docs c) \<longrightarrow>
               map_of (docs (snd (updateLocation drv w r c)) ! i) ''_id'' = map_of (docs c ! i) ''_id''
               \<and> map_of (docs (snd (updateLocation drv w r c)) ! i) ''type'' = map_of (docs c ! i) ''type'')
         \<and> (\<forall>i. fault drv = None \<and> i < length (docs c)
                 \<and> id_of (docs c ! i) = Some (BObjectID oid)
                 \<and> (\<forall>j < i. id_of (docs c ! j) \<noteq> Some (BObjectID oid)) \<longrightarrow>
               map_of (docs (snd (updateLocation drv w r c)) ! i) ''properties'' =
                 Some (marshal_Properties (Properties feature))
               \<and> map_of (docs (snd (updateLocation drv w r c)) ! i) ''geometry'' =
                 Some (marshal_Geometry (Geometry feature)))"
proof -
  let ?c' = "snd (updateLocation drv w r c)"
  have call: "calls ?c' =
           calls c @
           [UpdateOneCall [(''_id'', BObjectID oid)]
              [(''$set'',
                BDocument [(''properties'', marshal_Properties (Properties feature)),
                           (''geometry'', marshal_Geometry (Geometry feature))])]]"
    by (simp add: updateLocation_ok [OF assms] UpdateOne_set set_update_def Let_def split_beta
        split: option.splits)
  have len: "length (docs ?c') = length (docs c)"
    by (rule updateLocation_nth(1) [OF assms, of "''_id''"]) simp_all
  have frame: "\<forall>i k. i < length (docs c) \<and> k \<noteq> ''properties'' \<and> k \<noteq> ''geometry'' \<longrightarrow>
               map_of (docs ?c' ! i) k = map_of (docs c ! i) k"
    using updateLocation_nth(2) [OF assms] by blast
  have hit: "\<forall>i. fault drv = None \<and> i < length (docs c)
                 \<and> id_of (docs c ! i) = Some (BObjectID oid)
                 \<and> (\<forall>j < i. id_of (docs c ! j) \<noteq> Some (BObjectID oid)) \<longrightarrow>
               map_of (docs ?c' ! i) ''properties'' = Some (marshal_Properties (Properties feature))
               \<and> map_of (docs ?c' ! i) ''geometry'' = Some (marshal_Geometry (Geometry feature))"
  proof (intro allI impI, elim conjE)
    fix i
    assume f: "fault drv = None" and i: "i < length (docs c)"
      and m: "id_of (docs c ! i) = Some (BObjectID oid)"
      and first: "\<forall>j < i. id_of (docs c ! j) \<noteq> Some (BObjectID oid)"
    have "docs ?c' ! i = apply_set (set_update feature) (docs c ! i)"
      using update_first_hit [of i "docs c" "\<lambda>d. id_of d = Some (BObjectID oid)"
          "apply_set (set_update feature)"] i m first f
      by (simp add: updateLocation_docs [OF assms])
    then show "map_of (docs ?c' ! i) ''properties'' = Some (marshal_Properties (Properties feature))
               \<and> map_of (docs ?c' ! i) ''geometry'' = Some (marshal_Geometry (Geometry feature))"
      by (simp add: set_update_def map_of_apply_set2)
  qed
  from frame have keep: "\<forall>i. i < length (docs c) \<longrightarrow>
               map_of (docs ?c' ! i) ''_id'' = map_of (docs c ! i) ''_id''
               \<and> map_of (docs ?c' ! i) ''type'' = map_of (docs c ! i) ''type''"
    by simp
  from call len frame keep hit show ?thesis by blast
qed


theorem updateLocation_sets_two_fields_witness:
  "ObjectIDFromHex (param (Vars putRequest) ''id'') = Inr sampleID
   \<and> json_Decode (Body putRequest) zeroLocationFeature = Inr updateFeature
   \<and> map id_of (docs sampleCollection) = [Some (BObjectID sampleID)]
   \<and> map_of (docs sampleCollection ! 0) ''type'' = Some (BString ''Feature'')
   \<and> map_of (docs sampleCollection ! 0) ''properties'' =
        Some (BDocument [(''name'', BString ''A''), (''description'', BString ''d'')])
   \<and> length (docs (snd (updateLocation sampleDriver newResponseWriter putRequest sampleCollection))) = 1
   \<and> map_of (docs (snd (updateLocation sampleDriver newResponseWriter putRequest sampleCollection)) ! 0) ''_id'' =
        Some (BObjectID sampleID)
   \<and> map_of (docs (snd (updateLocation sampleDriver newResponseWriter putRequest sampleCollection)) ! 0) ''type'' =
        Some (BString ''Feature'')
   \<and> map_of (docs (snd (updateLocation sampleDriver newResponseWriter putRequest sampleCollection)) ! 0) ''properties'' =
        Some (BDocument [(''name'', BString ''B''), (''description'', BString ''moved'')])
   \<and> map_of (docs (snd (updateLocation sampleDriver newResponseWriter putRequest sampleCollection)) ! 0) ''geometry'' =
        Some (BDocument [(''type'', BString ''Point''), (''coordinates'', BArray [BDouble 3, BDouble 4])])"
proof -
  note h1 = update_id and h2 = update_decodes
  have s1: "map id_of (docs sampleCollection) = [Some (BObjectID sampleID)]"
    by code_simp
  have s2: "map_of (docs sampleCollection ! 0) ''type'' = Some (BString ''Feature'')"
    by code_simp
  have s3: "map_of (docs sampleCollection ! 0) ''properties'' =
        Some (BDocument [(''name'', BString ''A''), (''description'', BString ''d'')])"
    by code_simp
  have s4: "map_of (docs sampleCollection ! 0) ''_id'' = Some (BObjectID sampleID)"
    by code_simp
  have s5: "length (docs sampleCollection) = 1"
    by (simp add: sampleCollection_def)
  have s6: "fault sampleDriver = None"
    by (simp add: sampleDriver_def)
  have s7: "marshal_Properties (Properties updateFeature) =
      BDocument [(''name'', BString ''B''), (''description'', BString ''moved'')]"
    by code_simp
  have s8: "marshal_Geometry (Geometry updateFeature) =
      BDocument [(''type'', BString ''Point''), (''coordinates'', BArray [BDouble 3, BDouble 4])]"
    by code_simp
  have s9: "id_of (docs sampleCollection ! 0) = Some (BObjectID sampleID)"
    using s4 by (simp add: id_of_def)
  from updateLocation_sets_two_fields [OF h1 h2, of sampleDriver newResponseWriter sampleCollection]
  have "length (docs (snd (updateLocation sampleDriver newResponseWriter putRequest sampleCollection))) = 1"
    and "map_of (docs (snd (updateLocation sampleDriver newResponseWriter putRequest sampleCollection)) ! 0) ''_id'' =
        Some (BObjectID sampleID)"
    and "map_of (docs (snd (updateLocation sampleDriver newResponseWriter putRequest sampleCollection)) ! 0) ''type'' =
        Some (BString ''Feature'')"
    and "map_of (docs (snd (updateLocation sampleDriver newResponseWriter putRequest sampleCollection)) ! 0) ''properties'' =
        Some (BDocument [(''name'', BString ''B''), (''description'', BString ''moved'')])"
    and "map_of (docs (snd (updateLocation sampleDriver newResponseWriter putRequest sampleCollection)) ! 0) ''geometry'' =
        Some (BDocument [(''type'', BString ''Point''), (''coordinates'', BArray [BDouble 3, BDouble 4])])"
    using s2 s4 s5 s6 s7 s8 s9 by simp_all
  with h1 h2 s1 s2 s3 show ?thesis by simp
qed

text \<open>
  Claim C10. When Update answers 200, the body is the encoding of the decoded request
  body itself: its \<open>type\<close> member is the type the client sent (one \<open>type\<close> member with
  a string decodes to that string, and the handler does not overwrite it), and its \<open>id\<close>
  member is the id the client sent (one \<open>id\<close> member with a string of 24 hexadecimal
  digits decodes to that identifier, which the answer spells with the same digits in lower
  case), twenty-four zeros when the body has no \<open>id\<close> member. The stored documents keep
  their \<open>_id\<close> and \<open>type\<close>.
\<close>

theorem updateLocation_echoes_body:
  assumes "ObjectIDFromHex (param (Vars r) ''id'') = Inr oid"
    and "json_Decode (Body r) zeroLocationFeature = Inr feature"
    and "fault drv = None" and "status w = None"
  shows "status (fst (updateLocation drv w r c)) = Some 200
         \<and> written (fst (updateLocation drv w r c)) =
             written w @
             [EncodedJSON
                (JObject
                   [(''id'', JString (Hex (ID feature))),
                    (''type'', JString (Type feature)),
                    (''properties'',
                       JObject [(''name'', JString (Name (Properties feature))),
                                (''description'', JString (Description (Properties feature)))]),
                    (''geometry'',
                       JObject [(''type'', JString (GType (Geometry feature))),
                                (''coordinates'', encode_float64s (Coordinates (Geometry feature)))])])]
         \<and> (\<forall>ms k t. Body r = JSONValue (JObject ms) \<and> members_for ''type'' ms = [(k, JString t)]
                \<longrightarrow> Type feature = t)
         \<and> (\<forall>ms k str oid'. Body r = JSONValue (JObject ms)
                \<and> members_for ''id'' ms = [(k, JString str)] \<and> ObjectIDFromHex str = Inr oid'
                \<longrightarrow> ID feature = oid' \<and> Hex (ID feature) = map toLower str)
         \<and> (\<forall>ms. Body r = JSONValue (JObject ms) \<and> members_for ''id'' ms = []
                \<longrightarrow> ID feature = NilObjectID \<and> Hex (ID feature) = ''000000000000000000000000'')
         \<and> (\<forall>i. i < length (docs c) \<longrightarrow>
               map_of (docs (snd (updateLocation drv w r c)) ! i) ''_id'' = map_of (docs c ! i) ''_id''
               \<and> map_of (docs (snd (updateLocation drv w r c)) ! i) ''type'' = map_of (docs c ! i) ''type'')"
proof -
  have resp: "status (fst (updateLocation drv w r c)) = Some 200
         \<and> written (fst (updateLocation drv w r c)) =
             written w @ [EncodedJSON (encode_LocationFeature feature)]"
    using assms(3,4)
    by (simp add: updateLocation_ok [OF assms(1,2)] UpdateOne_set writer_defs split_beta)
  have ty: "\<forall>ms k t. Body r = JSONValue (JObject ms) \<and> members_for ''type'' ms = [(k, JString t)]
                \<longrightarrow> Type feature = t"
  proof (intro allI impI, elim conjE)
    fix ms k t
    assume b: "Body r = JSONValue (JObject ms)" and m: "members_for ''type'' ms = [(k, JString t)]"
    from assms(2) b obtain saved where
      "decode_LocationFeature_members ms (zeroLocationFeature, None) = Inr (feature, saved)"
      by (auto simp: json_Decode_def split: sum.splits option.splits)
    from decode_members_Type [OF this m] show "Type feature = t" .
  qed
  have zero: "Hex NilObjectID = ''000000000000000000000000''"
    by code_simp
  have idz: "\<forall>ms. Body r = JSONValue (JObject ms) \<and> members_for ''id'' ms = []
                \<longrightarrow> ID feature = NilObjectID \<and> Hex (ID feature) = ''000000000000000000000000''"
    using assms(2) json_Decode_omitted_id zero by auto
  have keep: "\<forall>i. i < length (docs c) \<longrightarrow>
               map_of (docs (snd (updateLocation drv w r c)) ! i) ''_id'' = map_of (docs c ! i) ''_id''
               \<and> map_of (docs (snd (updateLocation drv w r c)) ! i) ''type'' = map_of (docs c ! i) ''type''"
    using updateLocation_nth(2) [OF assms(1,2)] by simp
  have sent: "\<forall>ms k str oid'. Body r = JSONValue (JObject ms)
                \<and> members_for ''id'' ms = [(k, JString str)] \<and> ObjectIDFromHex str = Inr oid'
                \<longrightarrow> ID feature = oid' \<and> Hex (ID feature) = map toLower str"
    using assms(2) json_Decode_submitted_id by metis
  from resp [unfolded encode_LocationFeature_def] ty sent idz keep show ?thesis
    by blast
qed

theorem updateLocation_echoes_body_witness:
  "ObjectIDFromHex (param (Vars putRequest) ''id'') = Inr sampleID
   \<and> json_Decode (Body putRequest) zeroLocationFeature = Inr updateFeature
   \<and> fault sampleDriver = None \<and> status newResponseWriter = None
   \<and> Body putRequest = JSONValue (JObject updateMembers)
   \<and> members_for ''type'' updateMembers = [(''type'', JString ''Polygon'')]
   \<and> members_for ''id'' updateMembers = []
   \<and> written (fst (updateLocation sampleDriver newResponseWriter putRequest sampleCollection)) =
       [EncodedJSON
          (JObject
             [(''id'', JString ''000000000000000000000000''),
              (''type'', JString ''Polygon''),
              (''properties'', JObject [(''name'', JString ''B''), (''description'', JString ''moved'')]),
              (''geometry'',
                 JObject [(''type'', JString ''Point''),
                          (''coordinates'', JArray [JNumber 3, JNumber 4])])])]
   \<and> map_of (docs (snd (updateLocation sampleDriver newResponseWriter putRequest sampleCollection)) ! 0) ''_id'' =
       Some (BObjectID sampleID)
   \<and> map_of (docs (snd (updateLocation sampleDriver newResponseWriter putRequest sampleCollection)) ! 0) ''type'' =
       Some (BString ''Feature'')
   \<and> ObjectIDFromHex (param (Vars putRequestWithID) ''id'') = Inr sampleID
   \<and> json_Decode (Body putRequestWithID) zeroLocationFeature = Inr (updateFeature\<lparr>ID := otherID\<rparr>)
   \<and> Body putRequestWithID =
       JSONValue (JObject ((''id'', JString ''654a00010203040506070809'') # updateMembers))
   \<and> members_for ''id'' ((''id'', JString ''654a00010203040506070809'') # updateMembers) =
       [(''id'', JString ''654a00010203040506070809'')]
   \<and> ObjectIDFromHex ''654a00010203040506070809'' = Inr otherID
   \<and> written (fst (updateLocation sampleDriver newResponseWriter putRequestWithID sampleCollection)) =
       [EncodedJSON
          (JObject
             [(''id'', JString ''654a00010203040506070809''),
              (''type'', JString ''Polygon''),
              (''properties'', JObject [(''name'', JString ''B''), (''description'', JString ''moved'')]),
              (''geometry'',
                 JObject [(''type'', JString ''Point''),
                          (''coordinates'', JArray [JNumber 3, JNumber 4])])])]
   \<and> map_of (docs (snd (updateLocation sampleDriver newResponseWriter putRequestWithID sampleCollection)) ! 0)
         ''_id'' = Some (BObjectID sampleID)"
proof -
  note h1 = update_id and h2 = update_decodes
  have h3: "fault sampleDriver = None" by (simp add: sampleDriver_def)
  have h4: "status newResponseWriter = None" by (simp add: newResponseWriter_def)
  have b: "Body putRequest = JSONValue (JObject updateMembers)" by (simp add: putRequest_def)
  have m1: "members_for ''type'' updateMembers = [(''type'', JString ''Polygon'')]" by code_simp
  have m2: "members_for ''id'' updateMembers = []" by code_simp
  have s1: "map_of (docs sampleCollection ! 0) ''type'' = Some (BString ''Feature'')" by code_simp
  have s2: "map_of (docs sampleCollection ! 0) ''_id'' = Some (BObjectID sampleID)" by code_simp
  have s3: "length (docs sampleCollection) = 1" by (simp add: sampleCollection_def)
  have z: "Hex NilObjectID = ''000000000000000000000000''" by code_simp
  have e: "encode_float64s (Coordinates (Geometry updateFeature)) = JArray [JNumber 3, JNumber 4]"
    "Name (Properties updateFeature) = ''B''" "Description (Properties updateFeature) = ''moved''"
    "GType (Geometry updateFeature) = ''Point''"
    by (simp_all add: updateFeature_def encode_float64s_def)
  from updateLocation_echoes_body [OF h1 h2 h3 h4, of sampleCollection]
  have "written (fst (updateLocation sampleDriver newResponseWriter putRequest sampleCollection)) =
       [EncodedJSON
          (JObject
             [(''id'', JString ''000000000000000000000000''),
              (''type'', JString ''Polygon''),
              (''properties'', JObject [(''name'', JString ''B''), (''description'', JString ''moved'')]),
              (''geometry'',
                 JObject [(''type'', JString ''Point''),
                          (''coordinates'', JArray [JNumber 3, JNumber 4])])])]"
    and "map_of (docs (snd (updateLocation sampleDriver newResponseWriter putRequest sampleCollection)) ! 0) ''_id'' =
       Some (BObjectID sampleID)"
    and "map_of (docs (snd (updateLocation sampleDriver newResponseWriter putRequest sampleCollection)) ! 0) ''type'' =
       Some (BString ''Feature'')"
    using b m1 m2 s1 s2 s3 e z by (simp_all add: newResponseWriter_def)
  note without_id = this
  have g1: "ObjectIDFromHex (param (Vars putRequestWithID) ''id'') = Inr sampleID"
    by code_simp
  have g2: "json_Decode (Body putRequestWithID) zeroLocationFeature = Inr (updateFeature\<lparr>ID := otherID\<rparr>)"
    by code_simp
  have gb: "Body putRequestWithID =
       JSONValue (JObject ((''id'', JString ''654a00010203040506070809'') # updateMembers))"
    by (simp add: putRequestWithID_def)
  have gm: "members_for ''id'' ((''id'', JString ''654a00010203040506070809'') # updateMembers) =
       [(''id'', JString ''654a00010203040506070809'')]"
    by code_simp
  have gx: "ObjectIDFromHex ''654a00010203040506070809'' = Inr otherID"
    by code_simp
  have gl: "map toLower ''654a00010203040506070809'' = ''654a00010203040506070809''"
    by code_simp
  note t = updateLocation_echoes_body [OF g1 g2 h3 h4, of sampleCollection]
  from t gb gm gx have
    "Hex (ID (updateFeature\<lparr>ID := otherID\<rparr>)) = map toLower ''654a00010203040506070809''"
    by blast
  with gl have gi: "Hex otherID = ''654a00010203040506070809''"
    by simp
  from t have
    "written (fst (updateLocation sampleDriver newResponseWriter putRequestWithID sampleCollection)) =
       [EncodedJSON
          (JObject
             [(''id'', JString ''654a00010203040506070809''),
              (''type'', JString ''Polygon''),
              (''properties'', JObject [(''name'', JString ''B''), (''description'', JString ''moved'')]),
              (''geometry'',
                 JObject [(''type'', JString ''Point''),
                          (''coordinates'', JArray [JNumber 3, JNumber 4])])])]"
    and "map_of (docs (snd (updateLocation sampleDriver newResponseWriter putRequestWithID sampleCollection)) ! 0)
         ''_id'' = Some (BObjectID sampleID)"
    using s2 s3 gi by (simp_all add: newResponseWriter_def updateFeature_def encode_float64s_def)
  with without_id h1 h2 h3 h4 b m1 m2 g1 g2 gb gm gx show ?thesis by simp
qed

lemma id_in_docs: "x \<in> h ` set ds \<longleftrightarrow> (\<exists>d \<in> set ds. h d = x)"
  by (induction ds) auto

lemma delete_first_length:
  "length (fst (delete_first P ds)) + nat (snd (delete_first P ds)) = length ds"
  by (induction ds) (auto simp: split_beta)

lemma DeleteOne_result:
  assumes "DeleteOne drv c flt = (Inr res, c1)"
  shows "fault drv = None"
    and "res = \<lparr>DeletedCount = snd (delete_first (matches flt) (docs c))\<rparr>"
    and "c1 = c\<lparr>calls := calls c @ [DeleteOneCall flt], docs := fst (delete_first (matches flt) (docs c))\<rparr>"
  using assms by (auto simp: DeleteOne_def Let_def split_beta split: option.splits)

lemma DeleteOne_ok:
  "fault drv = None \<Longrightarrow>
   DeleteOne drv c flt =
     (Inr \<lparr>DeletedCount = snd (delete_first (matches flt) (docs c))\<rparr>,
      c\<lparr>calls := calls c @ [DeleteOneCall flt], docs := fst (delete_first (matches flt) (docs c))\<rparr>)"
  by (simp add: DeleteOne_def Let_def split_beta)

lemma deleteLocation_ok:
  assumes "ObjectIDFromHex (param (Vars r) ''id'') = Inr oid" and "fault drv = None"
    and "status w = None"
  shows "status (fst (deleteLocation drv w r c)) =
           (if Some (BObjectID oid) \<in> set (map id_of (docs c)) then Some 200 else Some 404)"
    and "docs (snd (deleteLocation drv w r c)) =
           fst (delete_first (\<lambda>d. id_of d = Some (BObjectID oid)) (docs c))"
  using assms
  by (simp_all add: deleteLocation_def DeleteOne_ok matches_id delete_first_count writer_defs
      Let_def id_in_docs)

lemma InsertOne_keeps_ids_distinct:
  "distinct (map id_of (docs c)) \<Longrightarrow> distinct (map id_of (docs (snd (InsertOne drv c f))))"
  by (auto simp: InsertOne_def marshal_LocationFeature_def IsZero_def id_of_def Let_def
      split: option.splits)

text \<open>
  Claim C5. For a well-formed identifier and a delete call that returns a result, the
  answer is 404 with \<open>Location not found\<close> exactly when the call removed no document, which
  is when no document has the identifier; otherwise it is 200 with the message
  \<open>Location deleted successfully\<close>. In a collection whose identifiers are distinct, deleting
  an identifier that is there answers 200, and deleting it again answers 404.
\<close>

theorem deleteLocation_not_found_iff:
  assumes "ObjectIDFromHex (param (Vars r) ''id'') = Inr oid"
    and "status w = None"
    and "DeleteOne drv c [(''_id'', BObjectID oid)] = (Inr res, c1)"
  shows "(status (fst (deleteLocation drv w r c)) = Some 404 \<longleftrightarrow> DeletedCount res = 0)
         \<and> (DeletedCount res = 0 \<longleftrightarrow> Some (BObjectID oid) \<notin> set (map id_of (docs c)))
         \<and> length (docs c1) + nat (DeletedCount res) = length (docs c)
         \<and> snd (deleteLocation drv w r c) = c1
         \<and> (DeletedCount res = 0 \<longrightarrow>
               written (fst (deleteLocation drv w r c)) =
                 written w @ [Println (Literal ''Location not found'')])
         \<and> (DeletedCount res \<noteq> 0 \<longrightarrow>
               status (fst (deleteLocation drv w r c)) = Some 200
               \<and> written (fst (deleteLocation drv w r c)) =
                   written w @
                   [EncodedJSON (JObject [(''message'', JString ''Location deleted successfully'')])])
         \<and> (DeletedCount res \<noteq> 0 \<and> distinct (map id_of (docs c)) \<longrightarrow>
               (\<forall>drv'. fault drv' = None \<longrightarrow>
                  status (fst (deleteLocation drv' w r (snd (deleteLocation drv w r c)))) = Some 404))"
proof -
  let ?P = "\<lambda>d. id_of d = Some (BObjectID oid)"
  note r = DeleteOne_result [OF assms(3)]
  have cnt: "DeletedCount res = (if Some (BObjectID oid) \<in> set (map id_of (docs c)) then 1 else 0)"
    by (simp add: r(2) matches_id delete_first_count id_in_docs)
  have c1: "docs c1 = fst (delete_first ?P (docs c))"
    by (simp add: r(3) matches_id)
  have len: "length (docs c1) + nat (DeletedCount res) = length (docs c)"
    using delete_first_length [of ?P "docs c"] by (simp add: c1 r(2) matches_id)
  have run: "deleteLocation drv w r c =
      (if DeletedCount res = 0
       then http_Error (Header_Set w ''Content-Type'' ''application/json'')
              (Literal ''Location not found'') StatusNotFound
       else json_Encode (Header_Set w ''Content-Type'' ''application/json'')
              (JObject [(''message'', JString ''Location deleted successfully'')]), c1)"
    using assms(1,3) by (simp add: deleteLocation_def Let_def)
  have again: "DeletedCount res \<noteq> 0 \<and> distinct (map id_of (docs c)) \<longrightarrow>
               (\<forall>drv'. fault drv' = None \<longrightarrow>
                  status (fst (deleteLocation drv' w r (snd (deleteLocation drv w r c)))) = Some 404)"
  proof (intro impI allI, elim conjE)
    fix drv' :: driver
    assume d: "distinct (map id_of (docs c))" and f: "fault drv' = None"
    from delete_first_distinct [OF d, of "Some (BObjectID oid)"]
    have "Some (BObjectID oid) \<notin> set (map id_of (docs c1))"
      by (simp add: c1 id_in_docs)
    with deleteLocation_ok(1) [OF assms(1) f assms(2), of c1]
    show "status (fst (deleteLocation drv' w r (snd (deleteLocation drv w r c)))) = Some 404"
      by (simp add: run)
  qed
  from assms(2) cnt len again show ?thesis
    by (simp add: run writer_defs)
qed


theorem deleteLocation_not_found_iff_witness:
  "ObjectIDFromHex (param (Vars deleteRequest) ''id'') = Inr sampleID
   \<and> status newResponseWriter = None
   \<and> DeleteOne sampleDriver sampleCollection [(''_id'', BObjectID sampleID)] =
       (Inr \<lparr>DeletedCount = 1\<rparr>,
        \<lparr>docs = [], calls = [DeleteOneCall [(''_id'', BObjectID sampleID)]]\<rparr>)
   \<and> distinct (map id_of (docs sampleCollection))
   \<and> fault sampleDriver = None
   \<and> status (fst (deleteLocation sampleDriver newResponseWriter deleteRequest sampleCollection)) = Some 200
   \<and> written (fst (deleteLocation sampleDriver newResponseWriter deleteRequest sampleCollection)) =
       [EncodedJSON (JObject [(''message'', JString ''Location deleted successfully'')])]
   \<and> docs (snd (deleteLocation sampleDriver newResponseWriter deleteRequest sampleCollection)) = []
   \<and> status (fst (deleteLocation sampleDriver newResponseWriter deleteRequest
                    (snd (deleteLocation sampleDriver newResponseWriter deleteRequest sampleCollection)))) =
       Some 404"
proof -
  have h1: "ObjectIDFromHex (param (Vars deleteRequest) ''id'') = Inr sampleID"
    by code_simp
  have h2: "status newResponseWriter = None" by (simp add: newResponseWriter_def)
  have h3: "DeleteOne sampleDriver sampleCollection [(''_id'', BObjectID sampleID)] =
       (Inr \<lparr>DeletedCount = 1\<rparr>,
        \<lparr>docs = [], calls = [DeleteOneCall [(''_id'', BObjectID sampleID)]]\<rparr>)"
    by code_simp
  have d: "distinct (map id_of (docs sampleCollection))"
    by (simp add: sampleCollection_def)
  have f: "fault sampleDriver = None" by (simp add: sampleDriver_def)
  have w: "written newResponseWriter = []" by (simp add: newResponseWriter_def)
  note t = deleteLocation_not_found_iff [OF h1 h2 h3]
  from t w have first:
    "status (fst (deleteLocation sampleDriver newResponseWriter deleteRequest sampleCollection)) = Some 200"
    "written (fst (deleteLocation sampleDriver newResponseWriter deleteRequest sampleCollection)) =
       [EncodedJSON (JObject [(''message'', JString ''Location deleted successfully'')])]"
    by simp_all
  from t have left:
    "docs (snd (deleteLocation sampleDriver newResponseWriter deleteRequest sampleCollection)) = []"
    by simp
  have nz: "DeletedCount \<lparr>DeletedCount = 1\<rparr> \<noteq> 0" by simp
  from t d nz have "\<forall>drv'. fault drv' = None \<longrightarrow>
      status (fst (deleteLocation drv' newResponseWriter deleteRequest
                    (snd (deleteLocation sampleDriver newResponseWriter deleteRequest sampleCollection)))) =
       Some 404"
    by blast
  with f have second:
    "status (fst (deleteLocation sampleDriver newResponseWriter deleteRequest
                    (snd (deleteLocation sampleDriver newResponseWriter deleteRequest sampleCollection)))) =
       Some 404"
    by blast
  from h1 h2 h3 d f first left second show ?thesis by blast
qed

lemma createLocation_answered:
  "status w = None \<Longrightarrow> answered (fst (createLocation drv w r c))"
  by (simp add: answered_def createLocation_def writer_defs Let_def split: sum.splits prod.splits)

lemma getLocations_answered:
  "status w = None \<Longrightarrow> answered (fst (getLocations drv w r c))"
  by (simp add: answered_def getLocations_def writer_defs Let_def split: sum.splits prod.splits)

lemma updateLocation_answered:
  "status w = None \<Longrightarrow> answered (fst (updateLocation drv w r c))"
  by (simp add: answered_def updateLocation_def writer_defs Let_def split: sum.splits prod.splits)

lemma deleteLocation_answered:
  "status w = None \<Longrightarrow> answered (fst (deleteLocation drv w r c))"
  by (simp add: answered_def deleteLocation_def writer_defs Let_def split: sum.splits prod.splits)

lemma corsMiddleware_next:
  "Method r \<noteq> ''OPTIONS'' \<Longrightarrow>
   corsMiddleware next drv newResponseWriter r c =
     next drv
       (newResponseWriter
          \<lparr>header :=
             [''Access-Control-Allow-Origin'' \<mapsto> ''*'',
              ''Access-Control-Allow-Methods'' \<mapsto> ''GET, POST, PUT, DELETE, OPTIONS'',
              ''Access-Control-Allow-Headers'' \<mapsto>
                 ''Content-Type, Authorization, X-Requested-With'']\<rparr>) r c"
  by (simp add: corsMiddleware_def newResponseWriter_def writer_defs)

text \<open>
  Claim C9, as amended. On every route, a request other than \<open>OPTIONS\<close> is answered
  either with status 200 and \<open>Content-Type: application/json\<close>, or with status 400, 404 or
  500 and the \<open>Content-Type: text/plain; charset=utf-8\<close> that \<open>http.Error\<close> sets; an
  \<open>OPTIONS\<close> request is answered with status 200 and no \<open>Content-Type\<close> at all.
\<close>

theorem content_type_of_answers:
  "\<forall>(path, methods, h) \<in> set routes.
     (Method r = ''OPTIONS'' \<longrightarrow>
        status (fst (corsMiddleware h drv newResponseWriter r c)) = Some 200
        \<and> header (fst (corsMiddleware h drv newResponseWriter r c)) ''Content-Type'' = None)
     \<and> (Method r \<noteq> ''OPTIONS'' \<longrightarrow>
          (status (fst (corsMiddleware h drv newResponseWriter r c)) = Some 200
           \<and> header (fst (corsMiddleware h drv newResponseWriter r c)) ''Content-Type'' =
               Some ''application/json'')
          \<or> (status (fst (corsMiddleware h drv newResponseWriter r c)) \<in> {Some 400, Some 404, Some 500}
             \<and> header (fst (corsMiddleware h drv newResponseWriter r c)) ''Content-Type'' =
                 Some ''text/plain; charset=utf-8''))"
proof -
  have opt: "Method r = ''OPTIONS'' \<longrightarrow>
        status (fst (corsMiddleware h drv newResponseWriter r c)) = Some 200
        \<and> header (fst (corsMiddleware h drv newResponseWriter r c)) ''Content-Type'' = None" for h
    by (simp add: corsMiddleware_def newResponseWriter_def writer_defs)
  have other: "Method r \<noteq> ''OPTIONS'' \<longrightarrow> answered (fst (corsMiddleware h drv newResponseWriter r c))"
    if "\<And>w. status w = None \<Longrightarrow> answered (fst (h drv w r c))" for h
  proof
    assume m: "Method r \<noteq> ''OPTIONS''"
    have "status newResponseWriter = None" by (simp add: newResponseWriter_def)
    then show "answered (fst (corsMiddleware h drv newResponseWriter r c))"
      by (simp add: corsMiddleware_next [OF m] that)
  qed
  note o = other [OF getLocations_answered] other [OF createLocation_answered]
    other [OF updateLocation_answered] other [OF deleteLocation_answered]
  show ?thesis
    using opt o by (simp add: routes_def answered_def)
qed

theorem content_type_of_answers_witness:
  "(''/locations/{id}'', [''DELETE'', ''OPTIONS''], deleteLocation) \<in> set routes
   \<and> Method optionsRequest = ''OPTIONS''
   \<and> header (fst (corsMiddleware deleteLocation sampleDriver newResponseWriter optionsRequest
                    sampleCollection)) ''Content-Type'' = None
   \<and> Method deleteRequest \<noteq> ''OPTIONS''
   \<and> status (fst (corsMiddleware deleteLocation sampleDriver newResponseWriter deleteRequest
                    sampleCollection)) = Some 200
   \<and> header (fst (corsMiddleware deleteLocation sampleDriver newResponseWriter deleteRequest
                    sampleCollection)) ''Content-Type'' = Some ''application/json''"
proof -
  have m: "(''/locations/{id}'', [''DELETE'', ''OPTIONS''], deleteLocation) \<in> set routes"
    by (simp add: routes_def)
  have o: "Method optionsRequest = ''OPTIONS''" by (simp add: optionsRequest_def)
  have d: "Method deleteRequest \<noteq> ''OPTIONS''" by (simp add: deleteRequest_def)
  have s: "status (fst (corsMiddleware deleteLocation sampleDriver newResponseWriter deleteRequest
                    sampleCollection)) = Some 200"
    by code_simp
  from content_type_of_answers [of optionsRequest sampleDriver sampleCollection] m o
  have a: "header (fst (corsMiddleware deleteLocation sampleDriver newResponseWriter optionsRequest
                    sampleCollection)) ''Content-Type'' = None"
    by blast
  from content_type_of_answers [of deleteRequest sampleDriver sampleCollection] m d s
  have b: "header (fst (corsMiddleware deleteLocation sampleDriver newResponseWriter deleteRequest
                    sampleCollection)) ''Content-Type'' = Some ''application/json''"
    by auto
  from m o d s a b show ?thesis by blast
qed

text \<open>
  Claim C9 as stated fails: the answer to an \<open>OPTIONS\<close> request has no \<open>Content-Type\<close>
  header, and the 404 of Delete carries \<open>text/plain; charset=utf-8\<close>.
\<close>

theorem content_type_counterexample:
  "Method optionsRequest = ''OPTIONS''
   \<and> status (fst (corsMiddleware getLocations sampleDriver newResponseWriter optionsRequest
                    emptyCollection)) = Some 200
   \<and> header (fst (corsMiddleware getLocations sampleDriver newResponseWriter optionsRequest
                    emptyCollection)) ''Content-Type'' = None
   \<and> status (fst (corsMiddleware deleteLocation sampleDriver newResponseWriter deleteRequest
                    emptyCollection)) = Some 404
   \<and> header (fst (corsMiddleware deleteLocation sampleDriver newResponseWriter deleteRequest
                    emptyCollection)) ''Content-Type'' = Some ''text/plain; charset=utf-8''"
  by code_simp

end
